theory Spec2Isabelle
  imports Complex_Main "HOL-Library.Word" "HOL-Library.AList"
begin

unbundle bit_operations_syntax

section \<open>Python strings\<close>

text \<open>
  A Python \<open>str\<close> is modelled as an Isabelle \<open>string\<close> whose characters are the code
  points U+0000 to U+00FF, so \<open>length\<close> counts code points as Python's \<open>len\<close> does.
  The character classes below are Python's for this range.
\<close>

definition lf :: char where
  "lf = CHR 0x0A"

definition py_isspace :: "char \<Rightarrow> bool" where
  \<comment> \<open>\<open>str.isspace\<close>: the characters \<open>str.split()\<close> and \<open>str.strip()\<close> treat as blank\<close>
  "py_isspace c = (let n = (of_char c :: nat) in
     (9 \<le> n \<and> n \<le> 13) \<or> (28 \<le> n \<and> n \<le> 32) \<or> n = 133 \<or> n = 160)"

definition lstrip :: "string \<Rightarrow> string" where
  "lstrip s = dropWhile py_isspace s"

definition rstrip :: "string \<Rightarrow> string" where
  "rstrip s = rev (dropWhile py_isspace (rev s))"

definition strip :: "string \<Rightarrow> string" where
  "strip s = rstrip (lstrip s)"

fun startswith :: "string \<Rightarrow> string \<Rightarrow> bool" where
  "startswith s [] = True"
| "startswith [] (p # ps) = False"
| "startswith (c # cs) (p # ps) = (c = p \<and> startswith cs ps)"

fun contains :: "string \<Rightarrow> string \<Rightarrow> bool" where
  \<comment> \<open>\<open>sub in s\<close>\<close>
  "contains [] sub = (sub = [])"
| "contains (c # cs) sub = (startswith (c # cs) sub \<or> contains cs sub)"

text \<open>\<open>str(i)\<close> for an integer, as the f-strings of the error messages render it.\<close>

definition digit_char :: "nat \<Rightarrow> char" where
  "digit_char d = ''0123456789'' ! d"

fun str_nat :: "nat \<Rightarrow> string" where
  "str_nat n = (if n < 10 then [digit_char n] else str_nat (n div 10) @ [digit_char (n mod 10)])"

declare str_nat.simps [simp del]

definition str_int :: "int \<Rightarrow> string" where
  "str_int i = (if i < 0 then CHR ''-'' # str_nat (nat (- i)) else str_nat (nat i))"

text \<open>
  \<open>str.lower()\<close>: the upper-case letters of this range are A to Z and U+00C0 to U+00DE
  without the multiplication sign U+00D7; each is mapped to the letter 32 code points up.
\<close>

definition upper_chars :: string where
  "upper_chars = ''ABCDEFGHIJKLMNOPQRSTUVWXYZ'' @
       [CHR 0xC0, CHR 0xC1, CHR 0xC2, CHR 0xC3, CHR 0xC4, CHR 0xC5, CHR 0xC6, CHR 0xC7, CHR
       0xC8, CHR 0xC9, CHR 0xCA, CHR 0xCB, CHR 0xCC, CHR 0xCD, CHR 0xCE, CHR 0xCF, CHR 0xD0,
       CHR 0xD1, CHR 0xD2, CHR 0xD3, CHR 0xD4, CHR 0xD5, CHR 0xD6, CHR 0xD8, CHR 0xD9, CHR
       0xDA, CHR 0xDB, CHR 0xDC, CHR 0xDD, CHR 0xDE]"

definition lower_chars :: string where
  "lower_chars = ''abcdefghijklmnopqrstuvwxyz'' @
       [CHR 0xE0, CHR 0xE1, CHR 0xE2, CHR 0xE3, CHR 0xE4, CHR 0xE5, CHR 0xE6, CHR 0xE7, CHR
       0xE8, CHR 0xE9, CHR 0xEA, CHR 0xEB, CHR 0xEC, CHR 0xED, CHR 0xEE, CHR 0xEF, CHR 0xF0,
       CHR 0xF1, CHR 0xF2, CHR 0xF3, CHR 0xF4, CHR 0xF5, CHR 0xF6, CHR 0xF8, CHR 0xF9, CHR
       0xFA, CHR 0xFB, CHR 0xFC, CHR 0xFD, CHR 0xFE]"

definition py_lower_char :: "char \<Rightarrow> char" where
  "py_lower_char c = (case map_of (zip upper_chars lower_chars) c of None \<Rightarrow> c | Some l \<Rightarrow> l)"

definition lower :: "string \<Rightarrow> string" where
  "lower s = map py_lower_char s"

text \<open>
  The classes of the regular expression \<open>\b[a-zA-Z]{3,}\b\<close>: \<open>[a-zA-Z]\<close>, and the
  word characters \<open>\w\<close> that decide where \<open>\b\<close> matches (for a \<open>str\<close> pattern:
  alphanumeric characters and the underscore).
\<close>

definition is_ascii_letter :: "char \<Rightarrow> bool" where
  "is_ascii_letter c = (let n = (of_char c :: nat) in
     (65 \<le> n \<and> n \<le> 90) \<or> (97 \<le> n \<and> n \<le> 122))"

definition is_word_char :: "char \<Rightarrow> bool" where
  "is_word_char c = (let n = (of_char c :: nat) in
     (48 \<le> n \<and> n \<le> 57) \<or> (65 \<le> n \<and> n \<le> 90) \<or> n = 95 \<or> (97 \<le> n \<and> n \<le> 122)
     \<or> n = 170 \<or> n = 178 \<or> n = 179 \<or> n = 181 \<or> n = 185 \<or> n = 186
     \<or> (188 \<le> n \<and> n \<le> 190) \<or> (192 \<le> n \<and> n \<le> 214) \<or> (216 \<le> n \<and> n \<le> 246)
     \<or> 248 \<le> n)"

text \<open>
  \<open>tokens sep cur s\<close> cuts \<open>s\<close> at the characters satisfying \<open>sep\<close> and returns the
  non-empty pieces; \<open>cur\<close> is the piece being read. \<open>str.split()\<close> without argument
  cuts at runs of blanks.
\<close>

fun tokens :: "(char \<Rightarrow> bool) \<Rightarrow> string \<Rightarrow> string \<Rightarrow> string list" where
  "tokens sep cur [] = (if cur = [] then [] else [cur])"
| "tokens sep cur (c # cs) =
     (if sep c then (if cur = [] then tokens sep [] cs else cur # tokens sep [] cs)
      else tokens sep (cur @ [c]) cs)"

definition split :: "string \<Rightarrow> string list" where
  "split s = tokens py_isspace [] s"

text \<open>
  \<open>re.findall(r'\b[a-zA-Z]{3,}\b', s)\<close>. Inside a maximal run of word characters
  \<open>\b\<close> matches at its two ends only, so a match is a whole run, made of letters only
  and at least three characters long; the matches are those runs, from left to right.
\<close>

definition findall_words :: "string \<Rightarrow> string list" where
  "findall_words s =
     filter (\<lambda>w. 3 \<le> length w \<and> list_all is_ascii_letter w)
       (tokens (\<lambda>c. \<not> is_word_char c) [] s)"

text \<open>
  \<open>Path(p).name\<close> and \<open>Path(p).suffix\<close> for POSIX paths: the components are the
  non-empty pieces between slashes other than \<open>.\<close>; the suffix starts at the last dot
  of the name unless that dot is its first or its last character.
\<close>

definition path_name :: "string \<Rightarrow> string" where
  "path_name p =
     (case filter (\<lambda>c. c \<noteq> ''.'') (tokens (\<lambda>c. c = CHR ''/'') [] p) of
        [] \<Rightarrow> [] | c # cs \<Rightarrow> last (c # cs))"

definition path_suffix :: "string \<Rightarrow> string" where
  "path_suffix p =
     (let name = path_name p;
          after = length (takeWhile (\<lambda>c. c \<noteq> CHR ''.'') (rev name))
      in if CHR ''.'' \<in> set name \<and> 0 < after \<and> Suc after < length name
         then drop (length name - Suc after) name else [])"

text \<open>\<open>json.dumps\<close> of a string, of a list of integers and of a dictionary of strings.\<close>

definition hex_digit :: "nat \<Rightarrow> char" where
  "hex_digit d = ''0123456789abcdef'' ! d"

definition json_escape :: "char \<Rightarrow> string" where
  "json_escape c = (let n = (of_char c :: nat) in
     if c = CHR 0x22 then [CHR 0x5C, CHR 0x22]
     else if c = CHR 0x5C then [CHR 0x5C, CHR 0x5C]
     else if c = CHR 0x0A then [CHR 0x5C, CHR ''n'']
     else if c = CHR 0x0D then [CHR 0x5C, CHR ''r'']
     else if c = CHR 0x09 then [CHR 0x5C, CHR ''t'']
     else if c = CHR 0x08 then [CHR 0x5C, CHR ''b'']
     else if c = CHR 0x0C then [CHR 0x5C, CHR ''f'']
     else if n < 32 \<or> 126 < n then
       [CHR 0x5C, CHR ''u'', CHR ''0'', CHR ''0'', hex_digit (n div 16), hex_digit (n mod 16)]
     else [c])"

definition json_string :: "string \<Rightarrow> string" where
  "json_string s = [CHR 0x22] @ concat (map json_escape s) @ [CHR 0x22]"

fun join :: "string \<Rightarrow> string list \<Rightarrow> string" where
  "join sep [] = []"
| "join sep [x] = x"
| "join sep (x # y # ys) = x @ sep @ join sep (y # ys)"

definition json_dumps_ints :: "nat list \<Rightarrow> string" where
  "json_dumps_ints xs = ''['' @ join '', '' (map str_nat xs) @ '']''"

definition json_dumps_strs :: "(string \<times> string) list \<Rightarrow> string" where
  "json_dumps_strs d =
     ''{'' @ join '', '' (map (\<lambda>(k, v). json_string k @ '': '' @ json_string v) d) @ ''}''"

section \<open>Python values\<close>

text \<open>
  The values a JSON-RPC request can carry, as Python sees them. A \<open>dict\<close> is an
  association list in insertion order (Python dictionaries iterate in that order); floats
  are idealised as rationals.
\<close>

datatype pyval =
    PNone
  | PBool bool
  | PInt int
  | PFloat rat
  | PStr string
  | PList "pyval list"
  | PDict "(string \<times> pyval) list"

text \<open>\<open>type(v).__name__\<close>\<close>

fun type_name :: "pyval \<Rightarrow> string" where
  "type_name PNone = ''NoneType''"
| "type_name (PBool b) = ''bool''"
| "type_name (PInt i) = ''int''"
| "type_name (PFloat r) = ''float''"
| "type_name (PStr s) = ''str''"
| "type_name (PList xs) = ''list''"
| "type_name (PDict kvs) = ''dict''"

text \<open>
  \<open>isinstance\<close> against the classes of \<open>_validate_type\<close>. \<open>bool\<close> is a subclass
  of \<open>int\<close> in Python, so a boolean is an instance of \<open>int\<close>.
\<close>

fun isinstance_str :: "pyval \<Rightarrow> bool" where
  "isinstance_str (PStr s) = True"
| "isinstance_str v = False"

fun isinstance_int :: "pyval \<Rightarrow> bool" where
  "isinstance_int (PInt i) = True"
| "isinstance_int (PBool b) = True"
| "isinstance_int v = False"

fun isinstance_float :: "pyval \<Rightarrow> bool" where
  "isinstance_float (PFloat r) = True"
| "isinstance_float v = False"

fun isinstance_bool :: "pyval \<Rightarrow> bool" where
  "isinstance_bool (PBool b) = True"
| "isinstance_bool v = False"

fun isinstance_list :: "pyval \<Rightarrow> bool" where
  "isinstance_list (PList xs) = True"
| "isinstance_list v = False"

fun isinstance_dict :: "pyval \<Rightarrow> bool" where
  "isinstance_dict (PDict kvs) = True"
| "isinstance_dict v = False"

text \<open>\<open>len(v)\<close> and the numeric value of \<open>v\<close>, used where \<open>isinstance\<close> has succeeded.\<close>

fun py_len :: "pyval \<Rightarrow> int" where
  "py_len (PStr s) = int (length s)"
| "py_len (PList xs) = int (length xs)"
| "py_len (PDict kvs) = int (length kvs)"
| "py_len v = 0"

fun py_num :: "pyval \<Rightarrow> rat" where
  "py_num (PInt i) = of_int i"
| "py_num (PBool b) = (if b then 1 else 0)"
| "py_num (PFloat r) = r"
| "py_num v = 0"

section \<open>Tool parameter validation (tools/base.py)\<close>

text \<open>
  A property of a parameter schema: the keys of the JSON-schema dictionary that the three
  tools use, each \<open>None\<close> when the key is absent (\<open>description\<close> is left out).
\<close>

record prop_schema =
  ps_type :: "string option"
  minLength :: "int option"
  maxLength :: "int option"
  minimum :: "int option"
  maximum :: "int option"
  minItems :: "int option"
  maxItems :: "int option"
  enum :: "pyval list option"
  default :: "pyval option"

definition no_constraints :: prop_schema where
  "no_constraints =
     \<lparr> ps_type = None, minLength = None, maxLength = None, minimum = None, maximum = None,
       minItems = None, maxItems = None, enum = None, default = None \<rparr>"

text \<open>
  The dictionary returned by \<open>get_parameter_schema\<close>, without its constant
  \<open>"type": "object"\<close> entry.
\<close>

record schema =
  properties :: "(string \<times> prop_schema) list"
  required :: "string list"
  additionalProperties :: bool

text \<open>The exceptions \<open>BaseMCPTool.execute\<close> distinguishes, with their messages.\<close>

datatype exn = ToolValidationError string | TimeoutError | Exception string

text \<open>\<open>_validate_type\<close>\<close>

definition validate_type :: "pyval \<Rightarrow> string \<Rightarrow> bool" where
  "validate_type v expected_type =
     (if expected_type = ''string'' then isinstance_str v
      else if expected_type = ''number'' then isinstance_int v \<or> isinstance_float v
      else if expected_type = ''integer'' then isinstance_int v
      else if expected_type = ''boolean'' then isinstance_bool v
      else if expected_type = ''array'' then isinstance_list v
      else if expected_type = ''object'' then isinstance_dict v
      else if expected_type = ''null'' then v = PNone
      else True)"

text \<open>
  \<open>_validate_property_constraints\<close>: the value returned is the exception raised, if
  any. The source's checks are consecutive \<open>if\<close> statements, each of which raises.
\<close>

definition below :: "int option \<Rightarrow> rat \<Rightarrow> bool" where
  \<comment> \<open>\<open>key in prop_schema and x < prop_schema[key]\<close>\<close>
  "below bound x = (case bound of None \<Rightarrow> False | Some b \<Rightarrow> x < of_int b)"

definition above :: "int option \<Rightarrow> rat \<Rightarrow> bool" where
  "above bound x = (case bound of None \<Rightarrow> False | Some b \<Rightarrow> x > of_int b)"

definition quoted :: "string \<Rightarrow> string" where
  "quoted s = [CHR 0x27] @ s @ [CHR 0x27]"

definition validate_property_constraints :: "string \<Rightarrow> pyval \<Rightarrow> prop_schema \<Rightarrow> exn option" where
  "validate_property_constraints param_name v prop_schema =
     (if isinstance_str v \<and> below (minLength prop_schema) (of_int (py_len v)) then
        Some (ToolValidationError (''Parameter '' @ quoted param_name
          @ '' must be at least '' @ str_int (the (minLength prop_schema)) @ '' characters long''))
      else if isinstance_str v \<and> above (maxLength prop_schema) (of_int (py_len v)) then
        Some (ToolValidationError (''Parameter '' @ quoted param_name
          @ '' must be at most '' @ str_int (the (maxLength prop_schema)) @ '' characters long''))
      else if (isinstance_int v \<or> isinstance_float v) \<and> below (minimum prop_schema) (py_num v) then
        Some (ToolValidationError (''Parameter '' @ quoted param_name
          @ '' must be at least '' @ str_int (the (minimum prop_schema))))
      else if (isinstance_int v \<or> isinstance_float v) \<and> above (maximum prop_schema) (py_num v) then
        Some (ToolValidationError (''Parameter '' @ quoted param_name
          @ '' must be at most '' @ str_int (the (maximum prop_schema))))
      else if isinstance_list v \<and> below (minItems prop_schema) (of_int (py_len v)) then
        Some (ToolValidationError (''Parameter '' @ quoted param_name
          @ '' must have at least '' @ str_int (the (minItems prop_schema)) @ '' items''))
      else if isinstance_list v \<and> above (maxItems prop_schema) (of_int (py_len v)) then
        Some (ToolValidationError (''Parameter '' @ quoted param_name
          @ '' must have at most '' @ str_int (the (maxItems prop_schema)) @ '' items''))
      else None)"

text \<open>
  \<open>validate_parameters\<close>. Its loop over \<open>params.items()\<close> is
  \<open>validate_properties\<close>, with \<open>validated_params\<close> as accumulator; its loop applying
  defaults is \<open>apply_defaults\<close>. A parameter that the schema does not declare is copied
  to \<open>validated_params\<close> ("Allow extra parameters for flexibility").
\<close>

fun validate_properties ::
  "(string \<times> prop_schema) list \<Rightarrow> (string \<times> pyval) list \<Rightarrow> (string \<times> pyval) list
     \<Rightarrow> exn + (string \<times> pyval) list"
where
  "validate_properties props [] validated_params = Inr validated_params"
| "validate_properties props ((param_name, param_value) # rest) validated_params =
     (case map_of props param_name of
        None \<Rightarrow>
          validate_properties props rest (AList.update param_name param_value validated_params)
      | Some prop_schema \<Rightarrow>
          (if (case ps_type prop_schema of
                 None \<Rightarrow> False
               | Some expected_type \<Rightarrow> \<not> validate_type param_value expected_type) then
             Inl (ToolValidationError (''Parameter '' @ quoted param_name
               @ '' must be of type '' @ the (ps_type prop_schema) @ '', got ''
               @ type_name param_value))
           else
             (case validate_property_constraints param_name param_value prop_schema of
                Some e \<Rightarrow> Inl e
              | None \<Rightarrow>
                  validate_properties props rest
                    (AList.update param_name param_value validated_params))))"

fun apply_defaults ::
  "(string \<times> prop_schema) list \<Rightarrow> (string \<times> pyval) list \<Rightarrow> (string \<times> pyval) list"
where
  "apply_defaults [] validated_params = validated_params"
| "apply_defaults ((prop_name, prop_schema) # rest) validated_params =
     apply_defaults rest
       (case default prop_schema of
          Some d \<Rightarrow>
            (if map_of validated_params prop_name = None
             then AList.update prop_name d validated_params else validated_params)
        | None \<Rightarrow> validated_params)"

definition validate_parameters ::
  "schema \<Rightarrow> (string \<times> pyval) list \<Rightarrow> exn + (string \<times> pyval) list"
where
  "validate_parameters sch params =
     (case find (\<lambda>field. map_of params field = None) (required sch) of
        Some field \<Rightarrow> Inl (ToolValidationError (''Missing required parameter: '' @ field))
      | None \<Rightarrow>
          (case validate_properties (properties sch) params [] of
             Inl e \<Rightarrow> Inl e
           | Inr validated_params \<Rightarrow> Inr (apply_defaults (properties sch) validated_params)))"

text \<open>\<open>get_parameter_schema\<close> of the three tools.\<close>

definition SearchDocumentsTool_schema :: schema where
  "SearchDocumentsTool_schema =
     \<lparr> properties =
         [(''query'', no_constraints \<lparr> ps_type := Some ''string'', minLength := Some 1,
              maxLength := Some 500 \<rparr>),
          (''limit'', no_constraints \<lparr> ps_type := Some ''integer'', default := Some (PInt 10),
              minimum := Some 1, maximum := Some 100 \<rparr>),
          (''file_type'', no_constraints \<lparr> ps_type := Some ''string'',
              enum := Some [PStr ''.md'', PStr ''.txt'', PStr ''markdown'', PStr ''text''],
              default := Some PNone \<rparr>),
          (''sort_by'', no_constraints \<lparr> ps_type := Some ''string'',
              enum := Some [PStr ''relevance'', PStr ''date'', PStr ''name''],
              default := Some (PStr ''relevance'') \<rparr>)],
       required = [''query''],
       additionalProperties = False \<rparr>"

definition IndexDocumentTool_schema :: schema where
  "IndexDocumentTool_schema =
     \<lparr> properties =
         [(''file_path'', no_constraints \<lparr> ps_type := Some ''string'', minLength := Some 1,
              maxLength := Some 1000 \<rparr>),
          (''force_reindex'', no_constraints \<lparr> ps_type := Some ''boolean'',
              default := Some (PBool False) \<rparr>)],
       required = [''file_path''],
       additionalProperties = False \<rparr>"

definition GetDocumentTool_schema :: schema where
  \<comment> \<open>the \<open>oneOf\<close> entry of this schema is not a key the validator reads\<close>
  "GetDocumentTool_schema =
     \<lparr> properties =
         [(''document_id'', no_constraints \<lparr> ps_type := Some ''integer'', minimum := Some 1 \<rparr>),
          (''file_path'', no_constraints \<lparr> ps_type := Some ''string'', minLength := Some 1,
              maxLength := Some 1000 \<rparr>),
          (''include_content'', no_constraints \<lparr> ps_type := Some ''boolean'',
              default := Some (PBool True) \<rparr>),
          (''format'', no_constraints \<lparr> ps_type := Some ''string'',
              enum := Some [PStr ''json'', PStr ''markdown'', PStr ''text''],
              default := Some (PStr ''json'') \<rparr>),
          (''include_metadata'', no_constraints \<lparr> ps_type := Some ''boolean'',
              default := Some (PBool True) \<rparr>),
          (''max_content_length'', no_constraints \<lparr> ps_type := Some ''integer'',
              default := Some (PInt 0), minimum := Some 0, maximum := Some 10485760 \<rparr>)],
       required = [],
       additionalProperties = False \<rparr>"

section \<open>Tool execution (tools/base.py)\<close>

record ToolResult =
  success :: bool
  data :: "pyval option"
  error :: "string option"
  execution_time_ms :: "rat option"
  metadata :: "(string \<times> pyval) list"

definition success_result :: "pyval \<Rightarrow> rat option \<Rightarrow> (string \<times> pyval) list \<Rightarrow> ToolResult" where
  "success_result d t md =
     \<lparr> success = True, data = Some d, error = None, execution_time_ms = t, metadata = md \<rparr>"

definition error_result :: "string \<Rightarrow> rat option \<Rightarrow> (string \<times> pyval) list \<Rightarrow> ToolResult" where
  "error_result error_message t md =
     \<lparr> success = False, data = None, error = Some error_message, execution_time_ms = t,
       metadata = md \<rparr>"

text \<open>The performance counters of a tool.\<close>

record tool_metrics =
  execution_count :: nat
  total_execution_time :: rat
  error_count :: nat

text \<open>
  \<open>BaseMCPTool.execute\<close>. The abstract method \<open>_execute_tool\<close> is the parameter
  \<open>execute_tool\<close>: run on the validated parameters and the state \<open>'s\<close> it works on,
  it returns a result or raises (\<open>TimeoutError\<close> stands for \<open>asyncio.wait_for\<close>
  giving up on it). \<open>elapsed_ms\<close> is the measured execution time and
  \<open>timeout_seconds\<close> the text of \<open>self.timeout_seconds\<close>. The three \<open>except\<close>
  clauses are \<open>execute_failed\<close>; the \<open>try\<close> body after validation is
  \<open>execute_validated\<close>.
\<close>

definition execute_failed :: "string \<Rightarrow> exn \<Rightarrow> rat \<Rightarrow> tool_metrics \<Rightarrow> ToolResult \<times> tool_metrics" where
  "execute_failed timeout_seconds e elapsed_ms m =
     (error_result
        (case e of
           ToolValidationError msg \<Rightarrow> ''Parameter validation failed: '' @ msg
         | TimeoutError \<Rightarrow> ''Tool execution timed out after '' @ timeout_seconds @ '' seconds''
         | Exception msg \<Rightarrow> ''Tool execution failed: '' @ msg)
        (Some elapsed_ms) [],
      m \<lparr> error_count := error_count m + 1 \<rparr>)"

definition execute_validated ::
  "string \<Rightarrow> ((string \<times> pyval) list \<Rightarrow> 's \<Rightarrow> (exn + ToolResult) \<times> 's) \<Rightarrow> rat
     \<Rightarrow> (string \<times> pyval) list \<Rightarrow> tool_metrics \<times> 's \<Rightarrow> ToolResult \<times> tool_metrics \<times> 's"
where
  "execute_validated timeout_seconds execute_tool elapsed_ms validated_params st =
     (case execute_tool validated_params (snd st) of
        (Inr result, s') \<Rightarrow>
          (result \<lparr> execution_time_ms := Some elapsed_ms \<rparr>,
           (fst st) \<lparr> execution_count := execution_count (fst st) + 1,
                      total_execution_time := total_execution_time (fst st) + elapsed_ms,
                      error_count := error_count (fst st) + (if success result then 0 else 1) \<rparr>,
           s')
      | (Inl e, s') \<Rightarrow>
          (fst (execute_failed timeout_seconds e elapsed_ms (fst st)),
           snd (execute_failed timeout_seconds e elapsed_ms (fst st)), s'))"

definition execute ::
  "schema \<Rightarrow> string \<Rightarrow> ((string \<times> pyval) list \<Rightarrow> 's \<Rightarrow> (exn + ToolResult) \<times> 's) \<Rightarrow> rat
     \<Rightarrow> (string \<times> pyval) list option \<Rightarrow> tool_metrics \<times> 's \<Rightarrow> ToolResult \<times> tool_metrics \<times> 's"
where
  "execute sch timeout_seconds execute_tool elapsed_ms params st =
     (case validate_parameters sch (case params of None \<Rightarrow> [] | Some p \<Rightarrow> p) of
        Inl e \<Rightarrow>
          (fst (execute_failed timeout_seconds e elapsed_ms (fst st)),
           snd (execute_failed timeout_seconds e elapsed_ms (fst st)), snd st)
      | Inr validated_params \<Rightarrow>
          execute_validated timeout_seconds execute_tool elapsed_ms validated_params st)"

text \<open>A schema with its \<open>enum\<close> lists replaced: property \<open>n\<close> gets \<open>e n\<close>.\<close>

definition with_enums :: "(string \<Rightarrow> pyval list option) \<Rightarrow> schema \<Rightarrow> schema" where
  "with_enums e sch =
     sch \<lparr> properties := map (\<lambda>(n, ps). (n, ps \<lparr> enum := e n \<rparr>)) (properties sch) \<rparr>"


section \<open>Reading JSON (json.loads)\<close>

text \<open>
  \<open>json.loads\<close> on a \<open>str\<close>: the value read, or \<open>None\<close> where Python raises
  \<open>JSONDecodeError\<close>. Objects become dictionaries in the order of their keys, a repeated
  key keeping its first place and its last value; numbers without fraction and exponent
  become integers, the others floats (here rationals). Outside the model, and refused:
  the constants \<open>NaN\<close> and \<open>Infinity\<close>, and \<open>\u\<close> escapes above U+00FF. The reader
  recurses on a counter that is decreased at every call; \<open>json_loads\<close> starts it at twice
  the length of the text plus two, more than the calls a text of this length can need.
\<close>

definition json_ws :: "char \<Rightarrow> bool" where
  "json_ws c = (c = CHR '' '' \<or> c = CHR 0x09 \<or> c = CHR 0x0A \<or> c = CHR 0x0D)"

definition skip_ws :: "string \<Rightarrow> string" where
  "skip_ws s = dropWhile json_ws s"

definition is_digit :: "char \<Rightarrow> bool" where
  "is_digit c = (c \<in> set ''0123456789'')"

definition digit_value :: "char \<Rightarrow> nat" where
  "digit_value c = (of_char c :: nat) - 48"

definition nat_of_digits :: "string \<Rightarrow> nat" where
  "nat_of_digits ds = foldl (\<lambda>n c. 10 * n + digit_value c) 0 ds"

definition hex_value :: "char \<Rightarrow> nat option" where
  "hex_value c =
     (let n = (of_char c :: nat) in
      if 48 \<le> n \<and> n \<le> 57 then Some (n - 48)
      else if 65 \<le> n \<and> n \<le> 70 then Some (n - 55)
      else if 97 \<le> n \<and> n \<le> 102 then Some (n - 87)
      else None)"

text \<open>
  A number: \<open>-?(0|[1-9]\d*)(\.\d+)?([eE][-+]?\d+)?\<close>, read from the start of the text;
  the result holds the rest of the text.
\<close>

definition parse_number :: "string \<Rightarrow> (pyval \<times> string) option" where
  "parse_number s =
     (let negative = (s \<noteq> [] \<and> hd s = CHR ''-'');
          s1 = (if negative then tl s else s);
          int_digits = (if s1 \<noteq> [] \<and> hd s1 = CHR ''0'' then ''0'' else takeWhile is_digit s1);
          s2 = drop (length int_digits) s1;
          frac_digits = (if s2 \<noteq> [] \<and> hd s2 = CHR ''.'' then takeWhile is_digit (tl s2) else []);
          s3 = (if frac_digits = [] then s2 else drop (Suc (length frac_digits)) s2);
          after_e = (if s3 \<noteq> [] \<and> (hd s3 = CHR ''e'' \<or> hd s3 = CHR ''E'') then tl s3 else []);
          exp_negative = (after_e \<noteq> [] \<and> hd after_e = CHR ''-'');
          exp_signed = (after_e \<noteq> [] \<and> (hd after_e = CHR ''-'' \<or> hd after_e = CHR ''+''));
          exp_digits = takeWhile is_digit (if exp_signed then tl after_e else after_e);
          s4 = (if exp_digits = [] then s3
                else drop (Suc (length exp_digits) + (if exp_signed then 1 else 0)) s3);
          sign = (if negative then - 1 else 1)
      in if int_digits = [] then None
         else if frac_digits = [] \<and> exp_digits = [] then
           Some (PInt (sign * int (nat_of_digits int_digits)), s4)
         else
           Some (PFloat
                   (of_int sign
                    * (of_nat (nat_of_digits int_digits)
                       + of_nat (nat_of_digits frac_digits) / 10 ^ length frac_digits)
                    * (if exp_negative then 1 / 10 ^ nat_of_digits exp_digits
                       else 10 ^ nat_of_digits exp_digits)),
                 s4))"

text \<open>The characters of a string after its opening quote, up to the closing quote.\<close>

definition unescape :: "char \<Rightarrow> char option" where
  "unescape e =
     (if e = CHR 0x22 \<or> e = CHR 0x5C \<or> e = CHR ''/'' then Some e
      else if e = CHR ''b'' then Some (CHR 0x08)
      else if e = CHR ''f'' then Some (CHR 0x0C)
      else if e = CHR ''n'' then Some (CHR 0x0A)
      else if e = CHR ''r'' then Some (CHR 0x0D)
      else if e = CHR ''t'' then Some (CHR 0x09)
      else None)"

definition unicode_escape :: "string \<Rightarrow> char option" where
  "unicode_escape s =
     (case map hex_value (take 4 s) of
        [Some a, Some b, Some c, Some d] \<Rightarrow>
          (if a = 0 \<and> b = 0 then Some (char_of (16 * c + d)) else None)
      | _ \<Rightarrow> None)"

fun parse_chars :: "string \<Rightarrow> string \<Rightarrow> (string \<times> string) option" where
  "parse_chars [] acc = None"
| "parse_chars (c # cs) acc =
     (if c = CHR 0x22 then Some (acc, cs)
      else if c = CHR 0x5C then
        (case cs of
           [] \<Rightarrow> None
         | e # rest \<Rightarrow>
             (if e = CHR ''u'' then
                (case unicode_escape rest of
                   None \<Rightarrow> None
                 | Some u \<Rightarrow> parse_chars (drop 4 rest) (acc @ [u]))
              else
                (case unescape e of
                   None \<Rightarrow> None
                 | Some u \<Rightarrow> parse_chars rest (acc @ [u]))))
      else if (of_char c :: nat) < 32 then None
      else parse_chars cs (acc @ [c]))"

text \<open>
  A value at the start of the text; the items of an array from an item on; the members
  of an object from a key on.
\<close>

fun parse_value :: "nat \<Rightarrow> string \<Rightarrow> (pyval \<times> string) option"
  and parse_items :: "nat \<Rightarrow> string \<Rightarrow> pyval list \<Rightarrow> (pyval \<times> string) option"
  and parse_members :: "nat \<Rightarrow> string \<Rightarrow> (string \<times> pyval) list \<Rightarrow> (pyval \<times> string) option"
where
  "parse_value 0 s = None"
| "parse_value (Suc n) s =
     (if startswith s ''{'' then
        (if startswith (skip_ws (tl s)) ''}'' then Some (PDict [], tl (skip_ws (tl s)))
         else parse_members n (skip_ws (tl s)) [])
      else if startswith s ''['' then
        (if startswith (skip_ws (tl s)) '']'' then Some (PList [], tl (skip_ws (tl s)))
         else parse_items n (skip_ws (tl s)) [])
      else if startswith s [CHR 0x22] then
        (case parse_chars (tl s) [] of
           None \<Rightarrow> None
         | Some (str, rest) \<Rightarrow> Some (PStr str, rest))
      else if startswith s ''null'' then Some (PNone, drop 4 s)
      else if startswith s ''true'' then Some (PBool True, drop 4 s)
      else if startswith s ''false'' then Some (PBool False, drop 5 s)
      else parse_number s)"
| "parse_items 0 s acc = None"
| "parse_items (Suc n) s acc =
     (case parse_value n s of
        None \<Rightarrow> None
      | Some (v, rest) \<Rightarrow>
          (if startswith (skip_ws rest) '','' then
             parse_items n (skip_ws (tl (skip_ws rest))) (acc @ [v])
           else if startswith (skip_ws rest) '']'' then
             Some (PList (acc @ [v]), tl (skip_ws rest))
           else None))"
| "parse_members 0 s acc = None"
| "parse_members (Suc n) s acc =
     (if startswith s [CHR 0x22] then
        (case parse_chars (tl s) [] of
           None \<Rightarrow> None
         | Some (k, rest) \<Rightarrow>
             (if startswith (skip_ws rest) '':'' then
                (case parse_value n (skip_ws (tl (skip_ws rest))) of
                   None \<Rightarrow> None
                 | Some (v, rest') \<Rightarrow>
                     (if startswith (skip_ws rest') '','' then
                        parse_members n (skip_ws (tl (skip_ws rest'))) (AList.update k v acc)
                      else if startswith (skip_ws rest') ''}'' then
                        Some (PDict (AList.update k v acc), tl (skip_ws rest'))
                      else None))
              else None))
      else None)"


section \<open>UTF-8 and SHA-256 (hashlib)\<close>

text \<open>
  \<open>s.encode('utf-8')\<close> for the code points below U+0100 (one byte below U+0080, two
  bytes from there on), and \<open>hashlib.sha256(m).hexdigest()\<close> as FIPS 180-4 defines it:
  padding to 512-bit blocks, message schedule, 64 rounds per block, and the eight state
  words printed as 64 lower-case hexadecimal digits.
\<close>

type_synonym byte = "8 word"

definition encode_utf8_char :: "char \<Rightarrow> byte list" where
  "encode_utf8_char c = (let n = (of_char c :: nat) in
     if n < 128 then [of_nat n] else [of_nat (192 + n div 64), of_nat (128 + n mod 64)])"

definition encode_utf8 :: "string \<Rightarrow> byte list" where
  "encode_utf8 s = concat (map encode_utf8_char s)"

definition sha256_k :: "32 word list" where
  \<comment> \<open>the 64 round constants, four to a row\<close>
  "sha256_k =
     concat
       [[0x428a2f98, 0x71374491, 0xb5c0fbcf, 0xe9b5dba5],
        [0x3956c25b, 0x59f111f1, 0x923f82a4, 0xab1c5ed5],
        [0xd807aa98, 0x12835b01, 0x243185be, 0x550c7dc3],
        [0x72be5d74, 0x80deb1fe, 0x9bdc06a7, 0xc19bf174],
        [0xe49b69c1, 0xefbe4786, 0x0fc19dc6, 0x240ca1cc],
        [0x2de92c6f, 0x4a7484aa, 0x5cb0a9dc, 0x76f988da],
        [0x983e5152, 0xa831c66d, 0xb00327c8, 0xbf597fc7],
        [0xc6e00bf3, 0xd5a79147, 0x06ca6351, 0x14292967],
        [0x27b70a85, 0x2e1b2138, 0x4d2c6dfc, 0x53380d13],
        [0x650a7354, 0x766a0abb, 0x81c2c92e, 0x92722c85],
        [0xa2bfe8a1, 0xa81a664b, 0xc24b8b70, 0xc76c51a3],
        [0xd192e819, 0xd6990624, 0xf40e3585, 0x106aa070],
        [0x19a4c116, 0x1e376c08, 0x2748774c, 0x34b0bcb5],
        [0x391c0cb3, 0x4ed8aa4a, 0x5b9cca4f, 0x682e6ff3],
        [0x748f82ee, 0x78a5636f, 0x84c87814, 0x8cc70208],
        [0x90befffa, 0xa4506ceb, 0xbef9a3f7, 0xc67178f2]]"

definition be_bytes64 :: "64 word \<Rightarrow> byte list" where
  \<comment> \<open>the eight bytes of a 64-bit word, most significant first\<close>
  "be_bytes64 w = map (\<lambda>i. ucast (drop_bit (8 * i) w)) [7, 6, 5, 4, 3, 2, 1, 0]"

definition sha256_pad :: "byte list \<Rightarrow> byte list" where
  "sha256_pad m =
     m @ [0x80] @ replicate ((119 - length m mod 64) mod 64) 0 @ be_bytes64 (of_nat (8 * length m))"

fun be_words :: "byte list \<Rightarrow> 32 word list" where
  "be_words (a # b # c # d # rest) =
     (push_bit 24 (ucast a) OR push_bit 16 (ucast b) OR push_bit 8 (ucast c) OR ucast d)
       # be_words rest"
| "be_words rest = []"

definition ssig0 :: "32 word \<Rightarrow> 32 word" where
  "ssig0 x = word_rotr 7 x XOR word_rotr 18 x XOR drop_bit 3 x"

definition ssig1 :: "32 word \<Rightarrow> 32 word" where
  "ssig1 x = word_rotr 17 x XOR word_rotr 19 x XOR drop_bit 10 x"

definition bsig0 :: "32 word \<Rightarrow> 32 word" where
  "bsig0 x = word_rotr 2 x XOR word_rotr 13 x XOR word_rotr 22 x"

definition bsig1 :: "32 word \<Rightarrow> 32 word" where
  "bsig1 x = word_rotr 6 x XOR word_rotr 11 x XOR word_rotr 25 x"

fun sha256_schedule :: "nat \<Rightarrow> 32 word list \<Rightarrow> 32 word list" where
  "sha256_schedule 0 w = w"
| "sha256_schedule (Suc n) w =
     sha256_schedule n
       (w @ [ssig1 (w ! (length w - 2)) + w ! (length w - 7)
             + ssig0 (w ! (length w - 15)) + w ! (length w - 16)])"

type_synonym sha256_state =
  "32 word \<times> 32 word \<times> 32 word \<times> 32 word \<times> 32 word \<times> 32 word \<times> 32 word \<times> 32 word"

fun sha256_round :: "sha256_state \<Rightarrow> 32 word \<times> 32 word \<Rightarrow> sha256_state" where
  "sha256_round (a, b, c, d, e, f, g, h) (k, w) =
     (let t1 = h + bsig1 e + ((e AND f) XOR (NOT e AND g)) + k + w;
          t2 = bsig0 a + ((a AND b) XOR (a AND c) XOR (b AND c))
      in (t1 + t2, a, b, c, d + t1, e, f, g))"

fun sha256_block :: "sha256_state \<Rightarrow> 32 word list \<Rightarrow> sha256_state" where
  "sha256_block (a, b, c, d, e, f, g, h) block =
     (case foldl sha256_round (a, b, c, d, e, f, g, h) (zip sha256_k (sha256_schedule 48 block)) of
        (a', b', c', d', e', f', g', h') \<Rightarrow>
          (a + a', b + b', c + c', d + d', e + e', f + f', g + g', h + h'))"

fun blocks :: "nat \<Rightarrow> 32 word list \<Rightarrow> 32 word list list" where
  "blocks 0 ws = []"
| "blocks (Suc n) ws = take 16 ws # blocks n (drop 16 ws)"

definition hex32 :: "32 word \<Rightarrow> string" where
  "hex32 w = map (\<lambda>i. hex_digit (unat (drop_bit (4 * i) w AND 15))) [7, 6, 5, 4, 3, 2, 1, 0]"

definition sha256_hexdigest :: "byte list \<Rightarrow> string" where
  "sha256_hexdigest m =
     (let words = be_words (sha256_pad m) in
      case foldl sha256_block
             (0x6a09e667, 0xbb67ae85, 0x3c6ef372, 0xa54ff53a,
              0x510e527f, 0x9b05688c, 0x1f83d9ab, 0x5be0cd19)
             (blocks (length words div 16) words) of
        (a, b, c, d, e, f, g, h) \<Rightarrow>
          hex32 a @ hex32 b @ hex32 c @ hex32 d @ hex32 e @ hex32 f @ hex32 g @ hex32 h)"

section \<open>The data model (database/models.py)\<close>

text \<open>
  A \<open>datetime\<close> is a point on a linear time scale (microseconds). The dataclasses are
  records; a field that Python types as \<open>Optional\<close> is an \<open>option\<close>. The primary key
  \<open>id\<close> of each class has a prefixed name, since one name \<open>id\<close> cannot serve four records.
\<close>

type_synonym datetime = int

record Document =
  doc_id :: "int option"
  file_path :: string
  file_name :: string
  content :: string
  file_type :: string
  file_size :: int
  file_hash :: string
  created_at :: "datetime option"
  modified_at :: "datetime option"
  indexed_at :: "datetime option"
  metadata_json :: string

definition calculate_content_hash :: "Document \<Rightarrow> string" where
  "calculate_content_hash d = sha256_hexdigest (encode_utf8 (content d))"

text \<open>
  \<open>Document.__post_init__\<close>: the derived fields are filled in where the constructor
  left them empty.
\<close>

definition Document_post_init :: "Document \<Rightarrow> Document" where
  "Document_post_init d =
     (let d1 = (if file_name d = [] \<and> file_path d \<noteq> []
                then d \<lparr> file_name := path_name (file_path d) \<rparr> else d);
          d2 = (if file_type d1 = [] \<and> file_path d1 \<noteq> []
                then d1 \<lparr> file_type :=
                       dropWhile (\<lambda>c. c = CHR ''.'') (lower (path_suffix (file_path d1))) \<rparr>
                else d1)
      in if file_hash d2 = [] \<and> content d2 \<noteq> []
         then d2 \<lparr> file_hash := calculate_content_hash d2 \<rparr> else d2)"

record DocumentMetadata =
  md_id :: "int option"
  md_document_id :: int
  md_key :: string
  md_value :: string
  extracted_at :: "datetime option"

text \<open>
  \<open>SearchIndex\<close>; the relevance is a float, idealised as a rational.
  \<open>calculate_relevance_score\<close> returns the index entry with its score set (the score is
  also the value the method returns; for an empty document it returns 0.0 and leaves the
  field at its default 0.0).
\<close>

record SearchIndex =
  si_id :: "int option"
  si_document_id :: int
  keyword :: string
  frequency :: int
  position_data :: string
  relevance_score :: rat

definition calculate_relevance_score :: "SearchIndex \<Rightarrow> int \<Rightarrow> SearchIndex" where
  "calculate_relevance_score si document_length =
     (if document_length = 0 then si
      else
        let tf = of_int (frequency si) / of_int document_length;
            frequency_boost = min 1 (of_int (frequency si) / 5)
        in si \<lparr> relevance_score := tf * (1 + frequency_boost) \<rparr>)"

record SearchCache =
  sc_id :: "int option"
  query_hash :: string
  query_text :: string
  results :: string
  sc_created_at :: "datetime option"
  expires_at :: "datetime option"
  hit_count :: int

section \<open>The store (database/models.py: DatabaseSchema, database/queries.py)\<close>

text \<open>
  The four tables with the last key each \<open>AUTOINCREMENT\<close> sequence has handed out. Each
  query method runs its statements in one transaction: it returns the new state, or raises
  and leaves the state as it was (rollback). The errors modelled are the violations of the
  constraints that the schema declares (\<open>UNIQUE\<close>, \<open>CHECK\<close>, \<open>NOT NULL\<close>,
  \<open>FOREIGN KEY ... ON DELETE CASCADE\<close> with \<open>foreign_keys = ON\<close>); input/output failures
  of the database engine are not. The full-text mirror kept by triggers is left out.
\<close>

record database =
  documents :: "Document list"
  document_metadata :: "DocumentMetadata list"
  search_index :: "SearchIndex list"
  search_cache :: "SearchCache list"
  documents_seq :: int
  document_metadata_seq :: int
  search_index_seq :: int
  search_cache_seq :: int

definition empty_database :: database where
  "empty_database =
     \<lparr> documents = [], document_metadata = [], search_index = [], search_cache = [],
       documents_seq = 0, document_metadata_seq = 0, search_index_seq = 0,
       search_cache_seq = 0 \<rparr>"

definition IntegrityError :: "string \<Rightarrow> exn" where
  "IntegrityError constraint = Exception (''IntegrityError: '' @ constraint)"

subsection \<open>DocumentQueries\<close>

text \<open>The \<open>CHECK\<close> constraints of the table \<open>documents\<close>.\<close>

definition documents_check :: "Document \<Rightarrow> bool" where
  "documents_check d = (0 \<le> file_size d \<and> length (file_hash d) = 64)"

definition create_document :: "datetime \<Rightarrow> Document \<Rightarrow> database \<Rightarrow> exn + (int \<times> database)" where
  "create_document now document db =
     (if \<not> documents_check document then
        Inl (IntegrityError ''CHECK constraint failed: documents'')
      else if list_ex (\<lambda>r. file_path r = file_path document) (documents db) then
        Inl (IntegrityError ''UNIQUE constraint failed: documents.file_path'')
      else
        let document_id = documents_seq db + 1;
            row = document \<lparr> doc_id := Some document_id,
                    indexed_at := (case indexed_at document of
                                     None \<Rightarrow> Some now | Some t \<Rightarrow> Some t) \<rparr>
        in Inr (document_id,
                db \<lparr> documents := documents db @ [row], documents_seq := document_id \<rparr>))"

definition get_document :: "int \<Rightarrow> database \<Rightarrow> Document option" where
  "get_document document_id db = find (\<lambda>r. doc_id r = Some document_id) (documents db)"

definition get_document_by_path :: "string \<Rightarrow> database \<Rightarrow> Document option" where
  "get_document_by_path path db = find (\<lambda>r. file_path r = path) (documents db)"

definition update_document :: "Document \<Rightarrow> database \<Rightarrow> exn + (bool \<times> database)" where
  "update_document document db =
     (if doc_id document = None
         \<or> \<not> list_ex (\<lambda>r. doc_id r = doc_id document) (documents db) then
        Inr (False, db)
      else if \<not> documents_check document then
        Inl (IntegrityError ''CHECK constraint failed: documents'')
      else if list_ex (\<lambda>r. doc_id r \<noteq> doc_id document \<and> file_path r = file_path document)
                (documents db) then
        Inl (IntegrityError ''UNIQUE constraint failed: documents.file_path'')
      else
        Inr (True,
             db \<lparr> documents :=
                    map (\<lambda>r. if doc_id r = doc_id document then document else r)
                      (documents db) \<rparr>))"

text \<open>
  \<open>DELETE FROM documents WHERE id = ?\<close>: the rows of \<open>document_metadata\<close> and
  \<open>search_index\<close> that reference the document go with it (\<open>ON DELETE CASCADE\<close>).
\<close>

definition doc_queries_delete_document :: "int \<Rightarrow> database \<Rightarrow> bool \<times> database" where
  "doc_queries_delete_document i db =
     (if list_ex (\<lambda>r. doc_id r = Some i) (documents db) then
        (True,
         db \<lparr> documents := filter (\<lambda>r. doc_id r \<noteq> Some i) (documents db),
              document_metadata :=
                filter (\<lambda>m. md_document_id m \<noteq> i) (document_metadata db),
              search_index := filter (\<lambda>e. si_document_id e \<noteq> i) (search_index db) \<rparr>)
      else (False, db))"

subsection \<open>SearchQueries\<close>

text \<open>
  One \<open>INSERT OR REPLACE INTO search_index\<close>: the \<open>CHECK\<close> constraints and the foreign
  key abort the statement; a row with the same \<open>(document_id, keyword)\<close> is replaced.
\<close>

definition search_index_check :: "SearchIndex \<Rightarrow> bool" where
  "search_index_check e = (0 < frequency e \<and> 0 \<le> relevance_score e \<and> relevance_score e \<le> 1)"

definition insert_search_index :: "SearchIndex \<Rightarrow> database \<Rightarrow> exn + database" where
  "insert_search_index e db =
     (if \<not> search_index_check e then
        Inl (IntegrityError ''CHECK constraint failed: search_index'')
      else if \<not> list_ex (\<lambda>r. doc_id r = Some (si_document_id e)) (documents db) then
        Inl (IntegrityError ''FOREIGN KEY constraint failed'')
      else
        Inr (db \<lparr> search_index :=
                    filter (\<lambda>r. \<not> (si_document_id r = si_document_id e \<and> keyword r = keyword e))
                      (search_index db)
                    @ [e \<lparr> si_id := Some (search_index_seq db + 1) \<rparr>],
                  search_index_seq := search_index_seq db + 1 \<rparr>))"

fun insert_all_search_index :: "SearchIndex list \<Rightarrow> database \<Rightarrow> exn + database" where
  "insert_all_search_index [] db = Inr db"
| "insert_all_search_index (e # es) db =
     (case insert_search_index e db of
        Inl err \<Rightarrow> Inl err
      | Inr db' \<Rightarrow> insert_all_search_index es db')"

definition bulk_create_search_index :: "SearchIndex list \<Rightarrow> database \<Rightarrow> exn + (int \<times> database)" where
  "bulk_create_search_index search_entries db =
     (case insert_all_search_index search_entries db of
        Inl err \<Rightarrow> Inl err
      | Inr db' \<Rightarrow> Inr (int (length search_entries), db'))"

definition delete_search_index_for_document :: "int \<Rightarrow> database \<Rightarrow> int \<times> database" where
  "delete_search_index_for_document i db =
     (int (length (filter (\<lambda>e. si_document_id e = i) (search_index db))),
      db \<lparr> search_index := filter (\<lambda>e. si_document_id e \<noteq> i) (search_index db) \<rparr>)"

text \<open>
  \<open>get_search_cache\<close>: the row with this hash that has not expired, if any; its hit count
  in the table is incremented (\<open>_update_cache_hit_count\<close>), and the entry returned is
  the row as it was read.
\<close>

definition unexpired :: "datetime \<Rightarrow> SearchCache \<Rightarrow> bool" where
  "unexpired now c = (case expires_at c of None \<Rightarrow> False | Some t \<Rightarrow> now < t)"





definition cleanup_expired_cache :: "datetime \<Rightarrow> database \<Rightarrow> int \<times> database" where
  "cleanup_expired_cache now db =
     (int (length (filter (\<lambda>c. \<not> unexpired now c) (search_cache db))),
      db \<lparr> search_cache := filter (unexpired now) (search_cache db) \<rparr>)"

subsection \<open>MetadataQueries\<close>

definition insert_metadata :: "datetime \<Rightarrow> int \<Rightarrow> string \<times> string \<Rightarrow> database \<Rightarrow> exn + database" where
  "insert_metadata now i kv db =
     (if \<not> list_ex (\<lambda>r. doc_id r = Some i) (documents db) then
        Inl (IntegrityError ''FOREIGN KEY constraint failed'')
      else
        Inr (db \<lparr> document_metadata :=
                    filter (\<lambda>m. \<not> (md_document_id m = i \<and> md_key m = fst kv))
                      (document_metadata db)
                    @ [\<lparr> md_id = Some (document_metadata_seq db + 1), md_document_id = i,
                         md_key = fst kv, md_value = snd kv, extracted_at = Some now \<rparr>],
                  document_metadata_seq := document_metadata_seq db + 1 \<rparr>))"

fun insert_all_metadata ::
  "datetime \<Rightarrow> int \<Rightarrow> (string \<times> string) list \<Rightarrow> database \<Rightarrow> exn + database"
where
  "insert_all_metadata now i [] db = Inr db"
| "insert_all_metadata now i (kv # kvs) db =
     (case insert_metadata now i kv db of
        Inl err \<Rightarrow> Inl err
      | Inr db' \<Rightarrow> insert_all_metadata now i kvs db')"

definition bulk_create_metadata ::
  "datetime \<Rightarrow> int \<Rightarrow> (string \<times> string) list \<Rightarrow> database \<Rightarrow> exn + (int \<times> database)"
where
  "bulk_create_metadata now i metadata_dict db =
     (case insert_all_metadata now i metadata_dict db of
        Inl err \<Rightarrow> Inl err
      | Inr db' \<Rightarrow> Inr (int (length metadata_dict), db'))"

definition delete_document_metadata :: "int \<Rightarrow> database \<Rightarrow> int \<times> database" where
  "delete_document_metadata i db =
     (int (length (filter (\<lambda>m. md_document_id m = i) (document_metadata db))),
      db \<lparr> document_metadata := filter (\<lambda>m. md_document_id m \<noteq> i) (document_metadata db) \<rparr>)"

section \<open>DocumentManager (database/database_manager.py)\<close>

definition stop_words :: "string list" where
  "stop_words =
     [''the'', ''and'', ''or'', ''but'', ''in'', ''on'', ''at'', ''to'', ''for'', ''of'', ''with'',
      ''by'', ''from'', ''this'', ''that'', ''these'', ''those'', ''a'', ''an'', ''is'', ''are'',
      ''was'', ''were'', ''be'', ''been'', ''being'', ''have'', ''has'', ''had'', ''do'', ''does'',
      ''did'', ''will'', ''would'', ''could'', ''should'', ''may'', ''might'', ''can'', ''shall'']"

text \<open>
  \<open>_extract_keywords\<close>: the dictionary from keyword to the list of its positions in the
  list of words, in insertion order.
\<close>

fun collect_keywords ::
  "nat \<Rightarrow> string list \<Rightarrow> (string \<times> nat list) list \<Rightarrow> (string \<times> nat list) list"
where
  "collect_keywords position [] keywords = keywords"
| "collect_keywords position (word # rest) keywords =
     collect_keywords (Suc position) rest
       (if word \<notin> set stop_words \<and> 3 \<le> length word then
          AList.update word
            ((case map_of keywords word of None \<Rightarrow> [] | Some ps \<Rightarrow> ps) @ [position]) keywords
        else keywords)"

definition extract_keywords :: "string \<Rightarrow> (string \<times> nat list) list" where
  "extract_keywords c = collect_keywords 0 (findall_words (lower c)) []"

text \<open>
  The index entry \<open>_index_document_keywords\<close> builds for one keyword, and the method
  itself. Its \<open>except\<close> clause logs a failed bulk insert and goes on, so the entries
  deleted at the start stay deleted.
\<close>

definition keyword_entry :: "int \<Rightarrow> int \<Rightarrow> string \<times> nat list \<Rightarrow> SearchIndex" where
  "keyword_entry i document_length kp =
     calculate_relevance_score
       \<lparr> si_id = None, si_document_id = i, keyword = lower (fst kp),
         frequency = int (length (snd kp)), position_data = json_dumps_ints (snd kp),
         relevance_score = 0 \<rparr>
       document_length"

definition index_document_keywords :: "int \<Rightarrow> string \<Rightarrow> database \<Rightarrow> database" where
  "index_document_keywords i c db =
     (let db1 = snd (delete_search_index_for_document i db);
          keywords = extract_keywords c;
          document_length = int (length (split c));
          search_entries = map (keyword_entry i document_length) keywords
      in if search_entries \<noteq> [] then
           (case bulk_create_search_index search_entries db1 of
              Inl err \<Rightarrow> db1
            | Inr (n, db2) \<Rightarrow> db2)
         else db1)"

definition invalidate_search_cache :: "datetime \<Rightarrow> database \<Rightarrow> database" where
  "invalidate_search_cache now db = snd (cleanup_expired_cache now db)"

text \<open>
  \<open>index_document\<close>. The result is the document id, or \<open>None\<close> where the method logs an
  error and returns \<open>None\<close>; the state returned holds what was committed until then. The
  metadata dictionary has string values, as \<open>bulk_create_metadata\<close> declares.
\<close>

definition index_document_finish ::
  "datetime \<Rightarrow> int \<Rightarrow> string \<Rightarrow> (string \<times> string) list option \<Rightarrow> bool \<Rightarrow> database
     \<Rightarrow> int option \<times> database"
where
  "index_document_finish now i c metadata_dict extract db =
     (case (case metadata_dict of
              None \<Rightarrow> Inr db
            | Some md \<Rightarrow>
                (if md = [] then Inr db
                 else (case bulk_create_metadata now i md db of
                         Inl err \<Rightarrow> Inl err | Inr (n, db') \<Rightarrow> Inr db'))) of
        Inl err \<Rightarrow> (None, db)
      | Inr db1 \<Rightarrow>
          (Some i,
           invalidate_search_cache now
             (if extract then index_document_keywords i c db1 else db1)))"

definition new_document :: "datetime \<Rightarrow> string \<Rightarrow> string \<Rightarrow> Document" where
  \<comment> \<open>\<open>Document(file_path=..., content=..., file_size=..., created_at=..., ...)\<close>\<close>
  "new_document now path c =
     Document_post_init
       \<lparr> doc_id = None, file_path = path, file_name = [], content = c, file_type = [],
         file_size = int (length (encode_utf8 c)), file_hash = [],
         created_at = Some now, modified_at = Some now, indexed_at = Some now,
         metadata_json = ''{}'' \<rparr>"

definition set_metadata :: "(string \<times> string) list option \<Rightarrow> Document \<Rightarrow> Document" where
  \<comment> \<open>\<open>if metadata: document.metadata = metadata\<close>\<close>
  "set_metadata metadata_dict document =
     (case metadata_dict of
        None \<Rightarrow> document
      | Some md \<Rightarrow>
          (if md = [] then document else document \<lparr> metadata_json := json_dumps_strs md \<rparr>))"

definition index_document ::
  "datetime \<Rightarrow> string \<Rightarrow> string \<Rightarrow> (string \<times> string) list option \<Rightarrow> bool \<Rightarrow> database
     \<Rightarrow> int option \<times> database"
where
  "index_document now path c metadata_dict extract db =
     (if path = [] \<or> c = [] then (None, db)
      else
        let existing_doc = get_document_by_path path db;
            document = set_metadata metadata_dict (new_document now path c)
        in case existing_doc of
             Some existing \<Rightarrow>
               (case update_document
                       (document \<lparr> doc_id := doc_id existing, created_at := created_at existing \<rparr>)
                       db of
                  Inl err \<Rightarrow> (None, db)
                | Inr (ok, db') \<Rightarrow>
                    (if \<not> ok then (None, db')
                     else index_document_finish now (the (doc_id existing)) c metadata_dict
                            extract db'))
           | None \<Rightarrow>
               (case create_document now document db of
                  Inl err \<Rightarrow> (None, db)
                | Inr (document_id, db') \<Rightarrow>
                    (if document_id = 0 then (None, db')
                     else index_document_finish now document_id c metadata_dict extract db')))"

text \<open>\<open>DocumentManager.delete_document\<close>\<close>

definition delete_document :: "datetime \<Rightarrow> int \<Rightarrow> database \<Rightarrow> bool \<times> database" where
  "delete_document now i db =
     (let db1 = snd (delete_search_index_for_document i db);
          db2 = snd (delete_document_metadata i db1);
          (ok, db3) = doc_queries_delete_document i db2
      in if ok then (True, invalidate_search_cache now db3) else (False, db3))"

section \<open>States of the store that the document manager produces\<close>

text \<open>
  The store starts empty, and the document manager changes it by \<open>index_document\<close>
  (which creates a document or updates the one stored under the path) and by
  \<open>delete_document\<close>, at any time and with any arguments.
\<close>

inductive reachable :: "database \<Rightarrow> bool" where
  initial: "reachable empty_database"
| indexed: "reachable db \<Longrightarrow> reachable (snd (index_document now path c metadata_dict extract db))"
| deleted: "reachable db \<Longrightarrow> reachable (snd (delete_document now i db))"

text \<open>
  What is required of a stored document: its hash is the SHA-256 digest of the UTF-8
  encoding of its content, written as 64 hexadecimal digits, and its size is the length of
  that encoding in bytes.
\<close>

definition hexdigits :: "char set" where
  "hexdigits = set ''0123456789abcdef''"

definition hash_and_size_of_content :: "Document \<Rightarrow> bool" where
  "hash_and_size_of_content d =
     (file_hash d = sha256_hexdigest (encode_utf8 (content d))
      \<and> length (file_hash d) = 64
      \<and> set (file_hash d) \<subseteq> hexdigits
      \<and> file_size d = int (length (encode_utf8 (content d))))"

text \<open>The document stored under \<open>path\<close> holds the content \<open>c\<close>, with its hash and size.\<close>

definition written :: "string \<Rightarrow> string \<Rightarrow> Document \<Rightarrow> bool" where
  "written path c d = (file_path d = path \<and> content d = c \<and> hash_and_size_of_content d)"


section \<open>indexDocument (tools/indexDocument.py)\<close>

text \<open>
  What the tool reads from outside the store: the file system (\<open>Path(p).exists()\<close>,
  \<open>is_file()\<close>, \<open>stat()\<close>, with the modification time already a \<open>datetime\<close>),
  the result the parser gives for a file, the metadata dictionary that
  \<open>_combine_metadata\<close> builds from a parse result and the file, and the text of a
  \<open>datetime\<close> in ISO format.
\<close>

record file_status =
  path_exists :: bool
  path_is_file :: bool
  st_size :: int
  st_mtime :: datetime

record ParserResult =
  pr_content :: string
  pr_metadata :: "(string \<times> string) list"
  pr_keywords :: "string list"
  pr_parsing_stats :: "(string \<times> pyval) list"
  pr_success :: bool
  pr_error_message :: "string option"

record environment =
  stat :: "string \<Rightarrow> file_status"
  parser_result :: "string \<Rightarrow> ParserResult"
  combine_metadata :: "ParserResult \<Rightarrow> string \<Rightarrow> (string \<times> string) list"
  isoformat :: "datetime \<Rightarrow> string"

text \<open>
  What the tool works on: the store, and the parser factory, of which the counter
  \<open>_total_parses\<close> is kept; \<open>ParserFactory.parse_file\<close> increments it on every call.
\<close>

record index_state =
  store :: database
  total_parses :: nat

definition parse_file :: "environment \<Rightarrow> string \<Rightarrow> index_state \<Rightarrow> ParserResult \<times> index_state" where
  "parse_file env path st = (parser_result env path, st \<lparr> total_parses := total_parses st + 1 \<rparr>)"

definition is_supported_file_type :: "string \<Rightarrow> bool" where
  "is_supported_file_type path = (lower (path_suffix path) \<in> {''.md'', ''.txt''})"

definition max_file_size :: int where
  "max_file_size = 10 * 1024 * 1024"

text \<open>The truth value of a Python value, and \<open>str\<close> of an optional string.\<close>

fun truthy :: "pyval \<Rightarrow> bool" where
  "truthy PNone = False"
| "truthy (PBool b) = b"
| "truthy (PInt i) = (i \<noteq> 0)"
| "truthy (PFloat r) = (r \<noteq> 0)"
| "truthy (PStr s) = (s \<noteq> [])"
| "truthy (PList xs) = (xs \<noteq> [])"
| "truthy (PDict kvs) = (kvs \<noteq> [])"

definition str_opt :: "string option \<Rightarrow> string" where
  "str_opt s = (case s of None \<Rightarrow> ''None'' | Some t \<Rightarrow> t)"

definition opt_str :: "string option \<Rightarrow> pyval" where
  "opt_str s = (case s of None \<Rightarrow> PNone | Some t \<Rightarrow> PStr t)"

definition opt_int :: "int option \<Rightarrow> pyval" where
  "opt_int i = (case i of None \<Rightarrow> PNone | Some j \<Rightarrow> PInt j)"

text \<open>
  The part of \<open>_execute_tool\<close> after the check for an indexed, unmodified document:
  parse, index, report.
\<close>

definition parse_and_index ::
  "environment \<Rightarrow> datetime \<Rightarrow> string \<Rightarrow> bool \<Rightarrow> Document option \<Rightarrow> index_state
     \<Rightarrow> ToolResult \<times> index_state"
where
  "parse_and_index env now path force_reindex existing_doc st =
     (let (parse_result, st1) = parse_file env path st in
      if \<not> pr_success parse_result then
        (error_result
           (''Failed to parse document: '' @ str_opt (pr_error_message parse_result)) None [],
         st1)
      else if strip (pr_content parse_result) = [] then
        (error_result ''Document appears to be empty or contains no readable content'' None [],
         st1)
      else
        let combined_metadata = combine_metadata env parse_result path;
            (document_id, db') =
              index_document now path (pr_content parse_result) (Some combined_metadata) True
                (store st1);
            st2 = st1 \<lparr> store := db' \<rparr>
        in case document_id of
             None \<Rightarrow> (error_result ''Failed to index document in database'' None [], st2)
           | Some i \<Rightarrow>
               (success_result
                  (PDict
                     ([(''status'',
                        PStr (if existing_doc = None then ''indexed'' else ''reindexed'')),
                       (''document_id'', PInt i),
                       (''file_path'', PStr path),
                       (''file_size_bytes'', PInt (st_size (stat env path))),
                       (''content_length'', PInt (int (length (pr_content parse_result)))),
                       (''indexed_at'', PStr (isoformat env now)),
                       (''metadata_fields_extracted'', PInt (int (length combined_metadata))),
                       (''parsing_stats'', PDict (pr_parsing_stats parse_result))]
                      @ (if pr_keywords parse_result \<noteq> [] then
                           [(''keywords_extracted'',
                             PInt (int (length (pr_keywords parse_result))))]
                         else [])))
                  None
                  [(''tool_version'', PStr ''1.0''),
                   (''parser_type'',
                    (case map_of (pr_parsing_stats parse_result) ''parser_type'' of
                       None \<Rightarrow> PStr ''unknown'' | Some t \<Rightarrow> t)),
                   (''force_reindex'', PBool force_reindex)],
                st2))"

text \<open>
  The body of \<open>_execute_tool\<close> for a path and a \<open>force_reindex\<close> flag. Comparing the
  modification time with a stored \<open>modified_at\<close> that is \<open>None\<close> raises a
  \<open>TypeError\<close>, which the \<open>except\<close> clause turns into an error result.
\<close>

definition index_file ::
  "environment \<Rightarrow> datetime \<Rightarrow> string \<Rightarrow> bool \<Rightarrow> index_state \<Rightarrow> ToolResult \<times> index_state"
where
  "index_file env now path force_reindex st =
     (if \<not> path_exists (stat env path) then
        (error_result (''File not found: '' @ path) None [], st)
      else if \<not> path_is_file (stat env path) then
        (error_result (''Path is not a file: '' @ path) None [], st)
      else if \<not> is_supported_file_type path then
        (error_result
           (''Unsupported file type: '' @ path_suffix path @ ''. Supported types: .md, .txt'')
           None [],
         st)
      else if st_size (stat env path) > max_file_size then
        (error_result
           (''File too large: '' @ str_int (st_size (stat env path))
            @ '' bytes. Maximum size: '' @ str_int max_file_size @ '' bytes'')
           None [],
         st)
      else
        let existing_doc = get_document_by_path path (store st) in
        case existing_doc of
          None \<Rightarrow> parse_and_index env now path force_reindex existing_doc st
        | Some existing \<Rightarrow>
            (if force_reindex then parse_and_index env now path force_reindex existing_doc st
             else
               (case modified_at existing of
                  None \<Rightarrow>
                    (error_result
                       (''Tool execution failed: '' @ quoted ''<=''
                        @ '' not supported between instances of ''
                        @ quoted ''datetime.datetime'' @ '' and '' @ quoted ''NoneType'')
                       None [],
                     st)
                | Some t \<Rightarrow>
                    (if st_mtime (stat env path) \<le> t then
                       (success_result
                          (PDict
                             [(''status'', PStr ''already_indexed''),
                              (''document_id'', opt_int (doc_id existing)),
                              (''message'', PStr ''Document is already indexed and up to date''),
                              (''indexed_at'',
                               opt_str (map_option (isoformat env) (indexed_at existing))),
                              (''file_path'', PStr path)])
                          None [],
                        st)
                     else parse_and_index env now path force_reindex existing_doc st))))"

text \<open>
  \<open>IndexDocumentTool._execute_tool\<close> on the validated parameters. Validation has made
  \<open>file_path\<close> a string; without the key the subscript raises \<open>KeyError\<close> before
  the \<open>try\<close>, and \<open>Path\<close> of another value raises \<open>TypeError\<close> inside it.
\<close>

definition IndexDocumentTool_execute_tool ::
  "environment \<Rightarrow> datetime \<Rightarrow> (string \<times> pyval) list \<Rightarrow> index_state
     \<Rightarrow> (exn + ToolResult) \<times> index_state"
where
  "IndexDocumentTool_execute_tool env now validated_params st =
     (case map_of validated_params ''file_path'' of
        None \<Rightarrow> (Inl (Exception (quoted ''file_path'')), st)
      | Some (PStr path) \<Rightarrow>
          (case index_file env now path
                  (truthy (case map_of validated_params ''force_reindex'' of
                             None \<Rightarrow> PBool False | Some v \<Rightarrow> v))
                  st of
             (result, st') \<Rightarrow> (Inr result, st'))
      | Some v \<Rightarrow>
          (Inr (error_result
                  (''Tool execution failed: expected str, bytes or os.PathLike object, not ''
                   @ type_name v)
                  None []),
           st))"

section \<open>searchDocuments (tools/searchDocuments.py)\<close>



















section \<open>getDocument: content formatting\<close>

text \<open>
  \<open>GetDocumentTool.__init__\<close> (tools/getDocument.py) sets the two attributes the
  content formatter reads.
\<close>

record GetDocumentTool =
  max_content_size :: nat
  truncation_indicator :: string

definition GetDocumentTool_init :: GetDocumentTool where
  "GetDocumentTool_init =
     \<lparr> max_content_size = 5 * 1024 * 1024,
       truncation_indicator = [lf, lf] @ ''[Content truncated due to size limits]'' @ [lf] \<rparr>"

text \<open>
  The dictionary \<open>_format_content\<close> returns. The early return for empty content has no
  \<open>original_length\<close> key.
\<close>

record formatted_content =
  fc_content :: string
  fc_length :: nat
  fc_truncated :: bool
  fc_original_length :: "nat option"

definition markdown_header_prefixes :: "string list" where
  "markdown_header_prefixes =
     [''# '', ''## '', ''### '', ''#### '', ''##### '', ''###### '']"

definition markdown_indicators :: "string list" where
  "markdown_indicators = [''**'', ''*'', ''`'', ''##'', ''- '', ''1. '', ''['', '']('']"

text \<open>
  \<open>_strip_markdown\<close>: a sequence of regular-expression substitutions, here the
  parameter \<open>rewrite\<close>, whose result is returned through \<open>.strip()\<close>.
\<close>

definition strip_markdown :: "(string \<Rightarrow> string) \<Rightarrow> string \<Rightarrow> string" where
  "strip_markdown rewrite content0 = strip (rewrite content0)"

text \<open>
  \<open>_format_content\<close>; \<open>_strip_markdown\<close> is reached for \<open>format_type = "text"\<close>
  only.
\<close>

definition format_content ::
  "GetDocumentTool \<Rightarrow> (string \<Rightarrow> string) \<Rightarrow> string \<Rightarrow> string \<Rightarrow> int \<Rightarrow> formatted_content"
where
  "format_content tool rewrite content0 format_type max_length =
     (if content0 = [] then
        \<lparr> fc_content = [], fc_length = 0, fc_truncated = False, fc_original_length = None \<rparr>
      else
        let original_length = length content0;
            (content1, truncated) =
              (if max_length > 0 \<and> int original_length > max_length then
                 (take (nat max_length) content0 @ truncation_indicator tool, True)
               else if original_length > max_content_size tool then
                 (take (max_content_size tool) content0 @ truncation_indicator tool, True)
               else (content0, False));
            formatted =
              (if format_type = ''json'' then content1
               else if format_type = ''markdown'' then
                 (if list_ex (startswith (strip content1)) markdown_header_prefixes then content1
                  else if list_ex (contains content1) markdown_indicators then content1
                  else ''```'' @ [lf] @ content1 @ [lf] @ ''```'')
               else if format_type = ''text'' then strip_markdown rewrite content1
               else content1)
        in \<lparr> fc_content = formatted, fc_length = length formatted,
             fc_truncated = truncated, fc_original_length = Some original_length \<rparr>)"

text \<open>
  The content keys of the response built by \<open>_format_document_response\<close>; they are
  absent (\<open>None\<close>) when \<open>include_content\<close> is false.
\<close>

record response_content =
  rc_content :: string
  rc_content_length :: nat
  rc_content_truncated :: bool
  rc_content_format :: string

definition format_document_response ::
  "GetDocumentTool \<Rightarrow> (string \<Rightarrow> string) \<Rightarrow> string \<Rightarrow> bool \<Rightarrow> string \<Rightarrow> int
     \<Rightarrow> response_content option"
where
  "format_document_response tool rewrite document_content include_content format_type
       max_content_length =
     (if include_content then
        (if document_content \<noteq> [] then
           let formatted =
                 format_content tool rewrite document_content format_type max_content_length
           in Some \<lparr> rc_content = fc_content formatted, rc_content_length = fc_length formatted,
                     rc_content_truncated = fc_truncated formatted, rc_content_format = format_type \<rparr>
         else
           Some \<lparr> rc_content = [], rc_content_length = 0, rc_content_truncated = False,
                  rc_content_format = format_type \<rparr>)
      else None)"


section \<open>Properties of parameter validation\<close>

lemma map_of_enum:
  "map_of (map (\<lambda>(n, ps). (n, ps \<lparr> enum := e n \<rparr>)) props) k
     = map_option (\<lambda>ps. ps \<lparr> enum := e k \<rparr>) (map_of props k)"
  by (induction props) auto

lemma constraints_enum [simp]:
  "validate_property_constraints n v (ps \<lparr> enum := x \<rparr>) = validate_property_constraints n v ps"
  by (simp add: validate_property_constraints_def)

lemma validate_properties_enum:
  "validate_properties (map (\<lambda>(n, ps). (n, ps \<lparr> enum := e n \<rparr>)) props) params acc
     = validate_properties props params acc"
proof (induction params arbitrary: acc)
  case Nil
  show ?case by simp
next
  case (Cons p params)
  obtain k v where p: "p = (k, v)" by (cases p)
  show ?case
    by (simp add: p map_of_enum Cons.IH split: option.splits)
qed

lemma apply_defaults_enum:
  "apply_defaults (map (\<lambda>(n, ps). (n, ps \<lparr> enum := e n \<rparr>)) props) acc = apply_defaults props acc"
  by (induction props arbitrary: acc) auto

lemma validate_parameters_enum:
  "validate_parameters (with_enums e sch) params = validate_parameters sch params"
  by (simp add: validate_parameters_def with_enums_def validate_properties_enum apply_defaults_enum
      cong: option.case_cong sum.case_cong)

lemma validate_properties_append:
  "validate_properties props (p1 @ p2) acc =
     (case validate_properties props p1 acc of
        Inl e \<Rightarrow> Inl e | Inr a \<Rightarrow> validate_properties props p2 a)"
proof (induction p1 arbitrary: acc)
  case Nil
  show ?case by simp
next
  case (Cons p p1)
  obtain k v where p: "p = (k, v)" by (cases p)
  show ?case
    by (simp add: p Cons.IH split: option.splits)
qed

lemma validate_properties_acc:
  assumes "validate_properties props p a = Inr r" "map_of a' = (map_of a)(k \<mapsto> v)"
    "k \<notin> fst ` set p"
  shows "\<exists>r'. validate_properties props p a' = Inr r' \<and> map_of r' = (map_of r)(k \<mapsto> v)"
  using assms
proof (induction p arbitrary: a a')
  case Nil
  then show ?case by simp
next
  case (Cons x p)
  obtain n w where x: "x = (n, w)" by (cases x)
  from Cons.prems(3) x have nk: "n \<noteq> k" and kp: "k \<notin> fst ` set p" by auto
  have upd: "map_of (AList.update n w a') = (map_of (AList.update n w a))(k \<mapsto> v)"
    using Cons.prems(2) nk by (auto simp add: update_conv')
  from Cons.prems(1) have
    ok: "validate_properties props p (AList.update n w a) = Inr r"
    and same: "validate_properties props (x # p) a' = validate_properties props p (AList.update n w a')"
    by (auto simp add: x split: option.splits if_splits)
  from Cons.IH [OF ok upd kp] same show ?case by simp
qed

lemma apply_defaults_acc:
  assumes "map_of r' = (map_of r)(k \<mapsto> v)" "k \<notin> fst ` set props"
  shows "map_of (apply_defaults props r') = (map_of (apply_defaults props r))(k \<mapsto> v)"
  using assms
proof (induction props arbitrary: r r')
  case Nil
  then show ?case by simp
next
  case (Cons x props)
  obtain n ps where x: "x = (n, ps)" by (cases x)
  from Cons.prems(2) x have nk: "n \<noteq> k" and kp: "k \<notin> fst ` set props" by auto
  show ?case
  proof (cases "default ps")
    case None
    then show ?thesis using Cons.IH [OF Cons.prems(1) kp] by (simp add: x)
  next
    case (Some d)
    have same: "(map_of r' n = None) = (map_of r n = None)"
      using Cons.prems(1) nk by simp
    have upd: "map_of (AList.update n d r') = (map_of (AList.update n d r))(k \<mapsto> v)"
      using Cons.prems(1) nk by (auto simp add: update_conv')
    show ?thesis
      using Cons.IH [OF Cons.prems(1) kp] Cons.IH [OF upd kp] same by (auto simp add: x Some)
  qed
qed

subsection \<open>What \<open>execute\<close> does with the outcome of validation\<close>

lemma execute_rejected:
  assumes "validate_parameters sch params = Inl (ToolValidationError msg)"
  shows "execute sch timeout_seconds execute_tool elapsed_ms (Some params) st
           = (error_result (''Parameter validation failed: '' @ msg) (Some elapsed_ms) [],
              (fst st) \<lparr> error_count := error_count (fst st) + 1 \<rparr>, snd st)"
  using assms by (simp add: execute_def execute_failed_def)

lemma execute_accepted:
  assumes "validate_parameters sch params = Inr vp"
    and "execute_tool vp (snd st) = (Inr result, s')"
  shows "execute sch timeout_seconds execute_tool elapsed_ms (Some params) st
           = (result \<lparr> execution_time_ms := Some elapsed_ms \<rparr>,
              (fst st) \<lparr> execution_count := execution_count (fst st) + 1,
                         total_execution_time := total_execution_time (fst st) + elapsed_ms,
                         error_count := error_count (fst st) + (if success result then 0 else 1) \<rparr>,
              s')"
  using assms by (simp add: execute_def execute_validated_def)

lemma execute_raised:
  assumes "validate_parameters sch params = Inr vp"
    and "execute_tool vp (snd st) = (Inl e, s')"
  shows "execute sch timeout_seconds execute_tool elapsed_ms (Some params) st
           = (fst (execute_failed timeout_seconds e elapsed_ms (fst st)),
              snd (execute_failed timeout_seconds e elapsed_ms (fst st)), s')"
  using assms by (simp add: execute_def execute_validated_def)

lemma str_int_bounds:
  "str_int 1 = ''1''" "str_int 100 = ''100''" "str_int 500 = ''500''"
  by (simp_all add: str_int_def str_nat.simps digit_char_def)

lemma searchDocuments_sort_by:
  assumes "1 \<le> length q" and "length q \<le> 500"
  shows "validate_parameters SearchDocumentsTool_schema
            [(''query'', PStr q), (''sort_by'', PStr s)]
          = Inr [(''query'', PStr q), (''sort_by'', PStr s),
                 (''limit'', PInt 10), (''file_type'', PNone)]"
  using assms
  by (auto simp add: validate_parameters_def SearchDocumentsTool_schema_def
      no_constraints_def validate_type_def validate_property_constraints_def below_def
      above_def)

lemma searchDocuments_required:
  assumes "map_of params ''query'' = None"
  shows "validate_parameters SearchDocumentsTool_schema params
           = Inl (ToolValidationError ''Missing required parameter: query'')"
  using assms by (simp add: validate_parameters_def SearchDocumentsTool_schema_def)

lemma searchDocuments_type:
  assumes "\<not> isinstance_str v"
  shows "validate_parameters SearchDocumentsTool_schema [(''query'', v)]
           = Inl (ToolValidationError
               (''Parameter '' @ quoted ''query'' @ '' must be of type string, got ''
                @ type_name v))"
  using assms
  by (simp add: validate_parameters_def SearchDocumentsTool_schema_def no_constraints_def
      validate_type_def)

lemma searchDocuments_length:
  shows "length q < 1 \<Longrightarrow>
         validate_parameters SearchDocumentsTool_schema [(''query'', PStr q)]
           = Inl (ToolValidationError
               (''Parameter '' @ quoted ''query'' @ '' must be at least 1 characters long''))"
    and "500 < length q \<Longrightarrow>
         validate_parameters SearchDocumentsTool_schema [(''query'', PStr q)]
           = Inl (ToolValidationError
               (''Parameter '' @ quoted ''query'' @ '' must be at most 500 characters long''))"
  by (auto simp add: validate_parameters_def SearchDocumentsTool_schema_def no_constraints_def
      validate_type_def validate_property_constraints_def below_def above_def str_int_bounds)

lemma searchDocuments_range:
  assumes "1 \<le> length q" and "length q \<le> 500"
  shows "i < 1 \<Longrightarrow>
         validate_parameters SearchDocumentsTool_schema [(''query'', PStr q), (''limit'', PInt i)]
           = Inl (ToolValidationError
               (''Parameter '' @ quoted ''limit'' @ '' must be at least 1''))"
    and "100 < i \<Longrightarrow>
         validate_parameters SearchDocumentsTool_schema [(''query'', PStr q), (''limit'', PInt i)]
           = Inl (ToolValidationError
               (''Parameter '' @ quoted ''limit'' @ '' must be at most 100''))"
  using assms
  by (auto simp add: validate_parameters_def SearchDocumentsTool_schema_def no_constraints_def
      validate_type_def validate_property_constraints_def below_def above_def str_int_bounds)

subsection \<open>The claims about validation\<close>

text \<open>
  C3, as stated: a parameter value outside the enum declared in the tool's schema is
  rejected by validation. For \<open>searchDocuments\<close> with \<open>sort_by = "bogus"\<close>, a value
  outside the declared enum, validation returns the validated parameters instead.
\<close>

theorem C3_enum_rejected_counterexample:
  "map_option enum (map_of (properties SearchDocumentsTool_schema) ''sort_by'')
     = Some (Some [PStr ''relevance'', PStr ''date'', PStr ''name''])
   \<and> validate_parameters SearchDocumentsTool_schema
         [(''query'', PStr ''alpha''), (''sort_by'', PStr ''bogus'')]
     = Inr [(''query'', PStr ''alpha''), (''sort_by'', PStr ''bogus''),
            (''limit'', PInt 10), (''file_type'', PNone)]"
  by (simp add: validate_parameters_def SearchDocumentsTool_schema_def no_constraints_def
      validate_type_def validate_property_constraints_def below_def above_def)

text \<open>
  C3, amended. Enum membership is not among the checks of validation: the outcome of
  validation, and so of the call, is the same whatever enum lists the schema declares.
  \<open>searchDocuments\<close> with a query of 1 to 500 characters accepts every string as
  \<open>sort_by\<close>, and \<open>execute\<close> runs the handler on the validated parameters, which hold
  that string unchanged; the result of the call is the handler's result with the
  execution time set. The other checks stand, and run before the handler: when validation
  fails, the result is \<open>success = false\<close> with the message "Parameter validation
  failed: ...", the error counter is incremented and the state the handler works on is
  untouched, whatever the handler is. For \<open>searchDocuments\<close> validation fails when the
  required \<open>query\<close> is missing, when it is not a string, when it has fewer than 1 or
  more than 500 characters, and when \<open>limit\<close> is an integer below 1 or above 100.
\<close>

theorem C3_enum_not_checked:
  "validate_parameters (with_enums e sch) params = validate_parameters sch params
   \<and> execute (with_enums e sch) timeout_seconds execute_tool elapsed_ms (Some params) st
       = execute sch timeout_seconds execute_tool elapsed_ms (Some params) st
   \<and> (validate_parameters sch params = Inl (ToolValidationError msg) \<longrightarrow>
        execute sch timeout_seconds execute_tool elapsed_ms (Some params) st
          = (error_result (''Parameter validation failed: '' @ msg) (Some elapsed_ms) [],
             (fst st) \<lparr> error_count := error_count (fst st) + 1 \<rparr>, snd st))
   \<and> (1 \<le> length q \<and> length q \<le> 500 \<longrightarrow>
        validate_parameters SearchDocumentsTool_schema
            [(''query'', PStr q), (''sort_by'', PStr s)]
          = Inr [(''query'', PStr q), (''sort_by'', PStr s),
                 (''limit'', PInt 10), (''file_type'', PNone)])
   \<and> (1 \<le> length q \<and> length q \<le> 500
        \<and> execute_tool [(''query'', PStr q), (''sort_by'', PStr s),
                         (''limit'', PInt 10), (''file_type'', PNone)] (snd st)
            = (Inr result, s') \<longrightarrow>
        execute SearchDocumentsTool_schema timeout_seconds execute_tool elapsed_ms
            (Some [(''query'', PStr q), (''sort_by'', PStr s)]) st
          = (result \<lparr> execution_time_ms := Some elapsed_ms \<rparr>,
             (fst st) \<lparr> execution_count := execution_count (fst st) + 1,
                        total_execution_time := total_execution_time (fst st) + elapsed_ms,
                        error_count := error_count (fst st) + (if success result then 0 else 1) \<rparr>,
             s'))
   \<and> (map_of params ''query'' = None \<longrightarrow>
        validate_parameters SearchDocumentsTool_schema params
          = Inl (ToolValidationError ''Missing required parameter: query''))
   \<and> (\<not> isinstance_str v \<longrightarrow>
        validate_parameters SearchDocumentsTool_schema [(''query'', v)]
          = Inl (ToolValidationError
              (''Parameter '' @ quoted ''query'' @ '' must be of type string, got ''
               @ type_name v)))
   \<and> (length q < 1 \<longrightarrow>
        validate_parameters SearchDocumentsTool_schema [(''query'', PStr q)]
          = Inl (ToolValidationError
              (''Parameter '' @ quoted ''query'' @ '' must be at least 1 characters long'')))
   \<and> (500 < length q \<longrightarrow>
        validate_parameters SearchDocumentsTool_schema [(''query'', PStr q)]
          = Inl (ToolValidationError
              (''Parameter '' @ quoted ''query'' @ '' must be at most 500 characters long'')))
   \<and> (1 \<le> length q \<and> length q \<le> 500 \<and> i < 1 \<longrightarrow>
        validate_parameters SearchDocumentsTool_schema [(''query'', PStr q), (''limit'', PInt i)]
          = Inl (ToolValidationError
              (''Parameter '' @ quoted ''limit'' @ '' must be at least 1'')))
   \<and> (1 \<le> length q \<and> length q \<le> 500 \<and> 100 < i \<longrightarrow>
        validate_parameters SearchDocumentsTool_schema [(''query'', PStr q), (''limit'', PInt i)]
          = Inl (ToolValidationError
              (''Parameter '' @ quoted ''limit'' @ '' must be at most 100'')))"
proof -
  have enums: "validate_parameters (with_enums e sch) params = validate_parameters sch params"
    by (rule validate_parameters_enum)
  have calls: "execute (with_enums e sch) timeout_seconds execute_tool elapsed_ms (Some params) st
       = execute sch timeout_seconds execute_tool elapsed_ms (Some params) st"
    by (simp add: execute_def validate_parameters_enum)
  have handler: "execute SearchDocumentsTool_schema timeout_seconds execute_tool elapsed_ms
            (Some [(''query'', PStr q), (''sort_by'', PStr s)]) st
          = (result \<lparr> execution_time_ms := Some elapsed_ms \<rparr>,
             (fst st) \<lparr> execution_count := execution_count (fst st) + 1,
                        total_execution_time := total_execution_time (fst st) + elapsed_ms,
                        error_count := error_count (fst st) + (if success result then 0 else 1) \<rparr>,
             s')"
    if "1 \<le> length q" "length q \<le> 500"
      "execute_tool [(''query'', PStr q), (''sort_by'', PStr s),
                     (''limit'', PInt 10), (''file_type'', PNone)] (snd st) = (Inr result, s')"
    using that searchDocuments_sort_by [of q s]
    by (simp add: execute_def execute_validated_def)
  from enums calls handler show ?thesis
    using execute_rejected [of sch params msg timeout_seconds execute_tool elapsed_ms st]
      searchDocuments_sort_by [of q s] searchDocuments_required [of params]
      searchDocuments_type [of v] searchDocuments_length [of q]
      searchDocuments_range [of q i]
    by blast
qed

theorem C3_enum_not_checked_witness:
  "validate_parameters SearchDocumentsTool_schema [(''limit'', PInt 5)]
     = Inl (ToolValidationError ''Missing required parameter: query'')
   \<and> execute SearchDocumentsTool_schema ''30.0''
         (\<lambda>vp n. (Inr (success_result (PDict vp) None []), Suc n)) 5 (Some [(''limit'', PInt 5)])
         (\<lparr> execution_count = 0, total_execution_time = 0, error_count = 0 \<rparr>, 0)
     = (error_result ''Parameter validation failed: Missing required parameter: query''
          (Some 5) [],
        \<lparr> execution_count = 0, total_execution_time = 0, error_count = 1 \<rparr>, 0)
   \<and> execute SearchDocumentsTool_schema ''30.0''
         (\<lambda>vp n. (Inr (success_result (PDict vp) None []), Suc n)) 5
         (Some [(''query'', PStr ''alpha''), (''sort_by'', PStr ''newest first'')])
         (\<lparr> execution_count = 0, total_execution_time = 0, error_count = 0 \<rparr>, 0)
     = (success_result
          (PDict [(''query'', PStr ''alpha''), (''sort_by'', PStr ''newest first''),
                  (''limit'', PInt 10), (''file_type'', PNone)])
          (Some 5) [],
        \<lparr> execution_count = 1, total_execution_time = 5, error_count = 0 \<rparr>, 1)
   \<and> validate_parameters SearchDocumentsTool_schema [(''query'', PInt 7)]
     = Inl (ToolValidationError
         (''Parameter '' @ quoted ''query'' @ '' must be of type string, got int''))
   \<and> validate_parameters SearchDocumentsTool_schema [(''query'', PStr [])]
     = Inl (ToolValidationError
         (''Parameter '' @ quoted ''query'' @ '' must be at least 1 characters long''))
   \<and> validate_parameters SearchDocumentsTool_schema [(''query'', PStr (replicate 501 CHR ''a''))]
     = Inl (ToolValidationError
         (''Parameter '' @ quoted ''query'' @ '' must be at most 500 characters long''))
   \<and> validate_parameters SearchDocumentsTool_schema
         [(''query'', PStr ''alpha''), (''limit'', PInt 0)]
     = Inl (ToolValidationError (''Parameter '' @ quoted ''limit'' @ '' must be at least 1''))
   \<and> validate_parameters SearchDocumentsTool_schema
         [(''query'', PStr ''alpha''), (''limit'', PInt 101)]
     = Inl (ToolValidationError (''Parameter '' @ quoted ''limit'' @ '' must be at most 100''))"
proof -
  let ?handler = "\<lambda>vp n. (Inr (success_result (PDict vp) None []), Suc n)
                    :: (exn + ToolResult) \<times> nat"
  let ?st = "(\<lparr> execution_count = 0, total_execution_time = 0, error_count = 0 \<rparr>, 0 :: nat)"
  note rejected = C3_enum_not_checked [where e = "\<lambda>n. None"
      and sch = SearchDocumentsTool_schema and params = "[(''limit'', PInt 5)]"
      and timeout_seconds = "''30.0''" and execute_tool = ?handler and elapsed_ms = 5
      and st = ?st and msg = "''Missing required parameter: query''"
      and q = "[]" and s = "''newest first''" and v = "PInt 7" and i = 0
      and result = "success_result PNone None []" and s' = 0]
  note accepted = C3_enum_not_checked [where e = "\<lambda>n. None"
      and sch = SearchDocumentsTool_schema and params = "[(''limit'', PInt 5)]"
      and timeout_seconds = "''30.0''" and execute_tool = ?handler and elapsed_ms = 5
      and st = ?st and msg = "''Missing required parameter: query''"
      and q = "''alpha''" and s = "''newest first''" and v = "PInt 7" and i = 0
      and result = "success_result
          (PDict [(''query'', PStr ''alpha''), (''sort_by'', PStr ''newest first''),
                  (''limit'', PInt 10), (''file_type'', PNone)]) None []"
      and s' = 1]
  note above = C3_enum_not_checked [where e = "\<lambda>n. None"
      and sch = SearchDocumentsTool_schema and params = "[(''limit'', PInt 5)]"
      and timeout_seconds = "''30.0''" and execute_tool = ?handler and elapsed_ms = 5
      and st = ?st and msg = "''Missing required parameter: query''"
      and q = "''alpha''" and s = "''newest first''" and v = "PInt 7" and i = 101
      and result = "success_result PNone None []" and s' = 0]
  note long = C3_enum_not_checked [where e = "\<lambda>n. None"
      and sch = SearchDocumentsTool_schema and params = "[(''limit'', PInt 5)]"
      and timeout_seconds = "''30.0''" and execute_tool = ?handler and elapsed_ms = 5
      and st = ?st and msg = "''Missing required parameter: query''"
      and q = "replicate 501 CHR ''a''" and s = "''newest first''" and v = "PInt 7" and i = 0
      and result = "success_result PNone None []" and s' = 0]
  from rejected have 1: "validate_parameters SearchDocumentsTool_schema [(''limit'', PInt 5)]
     = Inl (ToolValidationError ''Missing required parameter: query'')"
    by simp
  with rejected have 2: "execute SearchDocumentsTool_schema ''30.0'' ?handler 5
         (Some [(''limit'', PInt 5)]) ?st
     = (error_result ''Parameter validation failed: Missing required parameter: query''
          (Some 5) [],
        \<lparr> execution_count = 0, total_execution_time = 0, error_count = 1 \<rparr>, 0)"
    by simp
  from accepted have 3: "execute SearchDocumentsTool_schema ''30.0'' ?handler 5
         (Some [(''query'', PStr ''alpha''), (''sort_by'', PStr ''newest first'')]) ?st
     = (success_result
          (PDict [(''query'', PStr ''alpha''), (''sort_by'', PStr ''newest first''),
                  (''limit'', PInt 10), (''file_type'', PNone)])
          (Some 5) [],
        \<lparr> execution_count = 1, total_execution_time = 5, error_count = 0 \<rparr>, 1)"
    by (simp add: success_result_def)
  from rejected have 4: "validate_parameters SearchDocumentsTool_schema [(''query'', PInt 7)]
     = Inl (ToolValidationError
         (''Parameter '' @ quoted ''query'' @ '' must be of type string, got int''))"
    by simp
  from rejected have 5: "validate_parameters SearchDocumentsTool_schema [(''query'', PStr [])]
     = Inl (ToolValidationError
         (''Parameter '' @ quoted ''query'' @ '' must be at least 1 characters long''))"
    by simp
  from long have 6:
    "validate_parameters SearchDocumentsTool_schema [(''query'', PStr (replicate 501 CHR ''a''))]
     = Inl (ToolValidationError
         (''Parameter '' @ quoted ''query'' @ '' must be at most 500 characters long''))"
    by simp
  from accepted have 7: "validate_parameters SearchDocumentsTool_schema
         [(''query'', PStr ''alpha''), (''limit'', PInt 0)]
     = Inl (ToolValidationError (''Parameter '' @ quoted ''limit'' @ '' must be at least 1''))"
    by simp
  from above have 8: "validate_parameters SearchDocumentsTool_schema
         [(''query'', PStr ''alpha''), (''limit'', PInt 101)]
     = Inl (ToolValidationError (''Parameter '' @ quoted ''limit'' @ '' must be at most 100''))"
    by simp
  from 1 2 3 4 5 6 7 8 show ?thesis
    by blast
qed

text \<open>
  C10: a parameter whose key the schema does not declare is not rejected. If the call is
  accepted without the key \<open>k\<close>, it is accepted with it, the validated parameters are
  the same dictionary extended by \<open>k\<close> with its value unchanged, and \<open>execute\<close> runs
  the handler on these validated parameters: the result of the call is the handler's
  result with the execution time set, the state is the one the handler leaves, and when
  the handler raises, the exception it raised is the one reported. This holds although
  the schemas of the three tools declare \<open>additionalProperties: false\<close>.
  (\<open>p1 @ (k, v) # p2\<close> is a dictionary in which the key \<open>k\<close> occurs once.)
\<close>

theorem C10_undeclared_parameter_passes:
  assumes undeclared: "k \<notin> fst ` set (properties sch)"
    and once: "k \<notin> fst ` set (p1 @ p2)"
    and accepted: "validate_parameters sch (p1 @ p2) = Inr vp"
  shows "\<exists>vp'. validate_parameters sch (p1 @ (k, v) # p2) = Inr vp'
           \<and> map_of vp' = (map_of vp)(k \<mapsto> v)
           \<and> (\<forall>result s'. execute_tool vp' (snd st) = (Inr result, s') \<longrightarrow>
                execute sch timeout_seconds execute_tool elapsed_ms (Some (p1 @ (k, v) # p2)) st
                  = (result \<lparr> execution_time_ms := Some elapsed_ms \<rparr>,
                     (fst st) \<lparr> execution_count := execution_count (fst st) + 1,
                                total_execution_time := total_execution_time (fst st) + elapsed_ms,
                                error_count := error_count (fst st)
                                  + (if success result then 0 else 1) \<rparr>,
                     s'))
           \<and> (\<forall>e s'. execute_tool vp' (snd st) = (Inl e, s') \<longrightarrow>
                execute sch timeout_seconds execute_tool elapsed_ms (Some (p1 @ (k, v) # p2)) st
                  = (fst (execute_failed timeout_seconds e elapsed_ms (fst st)),
                     snd (execute_failed timeout_seconds e elapsed_ms (fst st)), s'))
           \<and> \<not> additionalProperties SearchDocumentsTool_schema
           \<and> \<not> additionalProperties IndexDocumentTool_schema
           \<and> \<not> additionalProperties GetDocumentTool_schema"
proof -
  let ?P = "properties sch"
  from accepted have req: "find (\<lambda>field. map_of (p1 @ p2) field = None) (required sch) = None"
    by (auto simp add: validate_parameters_def split: option.splits)
  have dom: "map_of (p1 @ p2) f \<noteq> None \<Longrightarrow> map_of (p1 @ (k, v) # p2) f \<noteq> None" for f
    by (auto simp add: map_add_def split: option.splits)
  have req': "find (\<lambda>field. map_of (p1 @ (k, v) # p2) field = None) (required sch) = None"
    using req dom unfolding find_None_iff by blast
  from accepted req obtain r where
    r: "validate_properties ?P (p1 @ p2) [] = Inr r" and vp: "vp = apply_defaults ?P r"
    by (auto simp add: validate_parameters_def split: sum.splits)
  from r obtain a where a: "validate_properties ?P p1 [] = Inr a"
    and r2: "validate_properties ?P p2 a = Inr r"
    by (auto simp add: validate_properties_append split: sum.splits)
  have kP: "map_of ?P k = None"
    using undeclared by (simp add: map_of_eq_None_iff)
  have upd: "map_of (AList.update k v a) = (map_of a)(k \<mapsto> v)"
    by (simp add: update_conv')
  from once have k2: "k \<notin> fst ` set p2" by auto
  from validate_properties_acc [OF r2 upd k2] obtain r' where
    r': "validate_properties ?P p2 (AList.update k v a) = Inr r'"
    and mr': "map_of r' = (map_of r)(k \<mapsto> v)" by blast
  have full: "validate_properties ?P (p1 @ (k, v) # p2) [] = Inr r'"
    by (simp add: validate_properties_append a kP r')
  have res: "validate_parameters sch (p1 @ (k, v) # p2) = Inr (apply_defaults ?P r')"
    unfolding validate_parameters_def req' full by simp
  moreover have "map_of (apply_defaults ?P r') = (map_of vp)(k \<mapsto> v)"
    using apply_defaults_acc [OF mr' undeclared] vp by simp
  moreover have "\<forall>result s'. execute_tool (apply_defaults ?P r') (snd st) = (Inr result, s') \<longrightarrow>
      execute sch timeout_seconds execute_tool elapsed_ms (Some (p1 @ (k, v) # p2)) st
        = (result \<lparr> execution_time_ms := Some elapsed_ms \<rparr>,
           (fst st) \<lparr> execution_count := execution_count (fst st) + 1,
                      total_execution_time := total_execution_time (fst st) + elapsed_ms,
                      error_count := error_count (fst st) + (if success result then 0 else 1) \<rparr>,
           s')"
    by (simp add: execute_def execute_validated_def res)
  moreover have "\<forall>e s'. execute_tool (apply_defaults ?P r') (snd st) = (Inl e, s') \<longrightarrow>
      execute sch timeout_seconds execute_tool elapsed_ms (Some (p1 @ (k, v) # p2)) st
        = (fst (execute_failed timeout_seconds e elapsed_ms (fst st)),
           snd (execute_failed timeout_seconds e elapsed_ms (fst st)), s')"
    by (simp add: execute_def execute_validated_def res)
  moreover have "\<not> additionalProperties SearchDocumentsTool_schema
      \<and> \<not> additionalProperties IndexDocumentTool_schema
      \<and> \<not> additionalProperties GetDocumentTool_schema"
    by (simp add: SearchDocumentsTool_schema_def IndexDocumentTool_schema_def
        GetDocumentTool_schema_def)
  ultimately show ?thesis by blast
qed

text \<open>
  An instance: \<open>searchDocuments\<close> called with the undeclared key \<open>verbose\<close>, and a
  handler that returns the parameters it is given and counts its calls. The handler is
  called once, and what it was given holds \<open>verbose = True\<close>.
\<close>

theorem C10_undeclared_parameter_passes_witness:
  "''verbose'' \<notin> fst ` set (properties SearchDocumentsTool_schema)
   \<and> ''verbose'' \<notin> fst ` set ([(''query'', PStr ''alpha'')] @ [(''limit'', PInt 5)])
   \<and> validate_parameters SearchDocumentsTool_schema
         ([(''query'', PStr ''alpha'')] @ [(''limit'', PInt 5)])
     = Inr [(''query'', PStr ''alpha''), (''limit'', PInt 5), (''file_type'', PNone),
            (''sort_by'', PStr ''relevance'')]
   \<and> validate_parameters SearchDocumentsTool_schema
         ([(''query'', PStr ''alpha'')] @ (''verbose'', PBool True) # [(''limit'', PInt 5)])
     = Inr [(''query'', PStr ''alpha''), (''verbose'', PBool True), (''limit'', PInt 5),
            (''file_type'', PNone), (''sort_by'', PStr ''relevance'')]
   \<and> execute SearchDocumentsTool_schema ''30.0''
         (\<lambda>vp n. (Inr (success_result (PDict vp) None []), Suc n)) 5
         (Some ([(''query'', PStr ''alpha'')] @ (''verbose'', PBool True) # [(''limit'', PInt 5)]))
         (\<lparr> execution_count = 0, total_execution_time = 0, error_count = 0 \<rparr>, 0)
     = (success_result
          (PDict [(''query'', PStr ''alpha''), (''verbose'', PBool True), (''limit'', PInt 5),
                  (''file_type'', PNone), (''sort_by'', PStr ''relevance'')])
          (Some 5) [],
        \<lparr> execution_count = 1, total_execution_time = 5, error_count = 0 \<rparr>, 1)"
proof -
  let ?handler = "\<lambda>vp n. (Inr (success_result (PDict vp) None []), Suc n)
                    :: (exn + ToolResult) \<times> nat"
  let ?st = "(\<lparr> execution_count = 0, total_execution_time = 0, error_count = 0 \<rparr>, 0 :: nat)"
  let ?call = "[(''query'', PStr ''alpha'')] @ (''verbose'', PBool True) # [(''limit'', PInt 5)]"
  have undeclared: "''verbose'' \<notin> fst ` set (properties SearchDocumentsTool_schema)"
    by (simp add: SearchDocumentsTool_schema_def)
  have once: "''verbose'' \<notin> fst ` set ([(''query'', PStr ''alpha'')] @ [(''limit'', PInt 5)])"
    by simp
  have accepted: "validate_parameters SearchDocumentsTool_schema
         ([(''query'', PStr ''alpha'')] @ [(''limit'', PInt 5)])
     = Inr [(''query'', PStr ''alpha''), (''limit'', PInt 5), (''file_type'', PNone),
            (''sort_by'', PStr ''relevance'')]"
    by (simp add: validate_parameters_def SearchDocumentsTool_schema_def no_constraints_def
        validate_type_def validate_property_constraints_def below_def above_def)
  have direct: "validate_parameters SearchDocumentsTool_schema ?call
     = Inr [(''query'', PStr ''alpha''), (''verbose'', PBool True), (''limit'', PInt 5),
            (''file_type'', PNone), (''sort_by'', PStr ''relevance'')]"
    by (simp add: validate_parameters_def SearchDocumentsTool_schema_def no_constraints_def
        validate_type_def validate_property_constraints_def below_def above_def)
  from C10_undeclared_parameter_passes [OF undeclared once accepted, of "PBool True" ?handler
      ?st "''30.0''" 5]
  obtain vp' where
    v: "validate_parameters SearchDocumentsTool_schema ?call = Inr vp'"
    and run: "\<And>result s'. ?handler vp' (snd ?st) = (Inr result, s') \<Longrightarrow>
        execute SearchDocumentsTool_schema ''30.0'' ?handler 5 (Some ?call) ?st
          = (result \<lparr> execution_time_ms := Some 5 \<rparr>,
             (fst ?st) \<lparr> execution_count := execution_count (fst ?st) + 1,
                         total_execution_time := total_execution_time (fst ?st) + 5,
                         error_count := error_count (fst ?st)
                           + (if success result then 0 else 1) \<rparr>,
             s')"
    by blast
  from v direct have vp': "vp' = [(''query'', PStr ''alpha''), (''verbose'', PBool True),
      (''limit'', PInt 5), (''file_type'', PNone), (''sort_by'', PStr ''relevance'')]"
    by simp
  have "execute SearchDocumentsTool_schema ''30.0'' ?handler 5 (Some ?call) ?st
     = (success_result
          (PDict [(''query'', PStr ''alpha''), (''verbose'', PBool True), (''limit'', PInt 5),
                  (''file_type'', PNone), (''sort_by'', PStr ''relevance'')])
          (Some 5) [],
        \<lparr> execution_count = 1, total_execution_time = 5, error_count = 0 \<rparr>, 1)"
    using run [of "success_result (PDict vp') None []" 1]
    by (simp add: vp' success_result_def)
  with undeclared once accepted direct show ?thesis
    by blast
qed

section \<open>Properties of the digest\<close>

lemma length_hex32 [simp]: "length (hex32 w) = 8"
  by (simp add: hex32_def)

lemma length_sha256_hexdigest [simp]: "length (sha256_hexdigest m) = 64"
  by (simp add: sha256_hexdigest_def Let_def split: prod.splits)

lemma hex_digit_hex: "n < 16 \<Longrightarrow> hex_digit n \<in> hexdigits"
  unfolding hex_digit_def hexdigits_def by (rule nth_mem) simp

lemma unat_and_15: "unat (x AND 15) < 16" for x :: "32 word"
proof -
  have "x AND 15 \<le> 15" by (rule word_and_le1)
  then have "unat (x AND 15) \<le> unat (15 :: 32 word)" by (simp add: word_le_nat_alt)
  then show ?thesis by simp
qed

lemma hex32_hex: "set (hex32 w) \<subseteq> hexdigits"
  unfolding hex32_def using hex_digit_hex [OF unat_and_15] by auto

lemma sha256_hexdigest_hex [simp]: "set (sha256_hexdigest m) \<subseteq> hexdigits"
proof -
  have "set (case st of (a, b, c, d, e, f, g, h) \<Rightarrow>
               hex32 a @ hex32 b @ hex32 c @ hex32 d @ hex32 e @ hex32 f @ hex32 g @ hex32 h)
          \<subseteq> hexdigits" for st :: sha256_state
  proof -
    obtain a b c d e f g h where "st = (a, b, c, d, e, f, g, h)"
      by (metis surj_pair)
    then show ?thesis
      by (simp only: prod.case set_append Un_subset_iff hex32_hex simp_thms)
  qed
  then show ?thesis
    unfolding sha256_hexdigest_def Let_def .
qed


section \<open>Properties of the document manager\<close>

subsection \<open>What the operations of the store leave alone\<close>

lemma documents_delete_search_index [simp]:
  "documents (snd (delete_search_index_for_document i db)) = documents db"
  by (simp add: delete_search_index_for_document_def)

lemma documents_delete_document_metadata [simp]:
  "documents (snd (delete_document_metadata i db)) = documents db"
  by (simp add: delete_document_metadata_def)

lemma documents_invalidate_search_cache [simp]:
  "documents (invalidate_search_cache now db) = documents db"
  by (simp add: invalidate_search_cache_def cleanup_expired_cache_def)

lemma documents_insert_all_search_index:
  "insert_all_search_index es db = Inr db' \<Longrightarrow> documents db' = documents db"
proof (induction es arbitrary: db)
  case Nil
  then show ?case by simp
next
  case (Cons e es)
  then show ?case
    by (auto simp add: insert_search_index_def split: sum.splits if_splits)
qed

lemma documents_insert_all_metadata:
  "insert_all_metadata now i kvs db = Inr db' \<Longrightarrow> documents db' = documents db"
proof (induction kvs arbitrary: db)
  case Nil
  then show ?case by simp
next
  case (Cons kv kvs)
  then show ?case
    by (auto simp add: insert_metadata_def split: sum.splits if_splits)
qed

lemma documents_index_document_keywords [simp]:
  "documents (index_document_keywords i c db) = documents db"
  by (auto simp add: index_document_keywords_def bulk_create_search_index_def Let_def
        dest: documents_insert_all_search_index split: sum.splits prod.splits)

lemma documents_index_document_finish [simp]:
  "documents (snd (index_document_finish now i c md extract db)) = documents db"
  by (auto simp add: index_document_finish_def bulk_create_metadata_def
        dest: documents_insert_all_metadata split: sum.splits prod.splits option.splits)



subsection \<open>The document that \<open>index_document\<close> writes\<close>

lemma new_document_fields [simp]:
  assumes "c \<noteq> []"
  shows "content (new_document now path c) = c"
    and "file_path (new_document now path c) = path"
    and "file_size (new_document now path c) = int (length (encode_utf8 c))"
    and "file_hash (new_document now path c) = sha256_hexdigest (encode_utf8 c)"
  using assms
  by (simp_all add: new_document_def Document_post_init_def calculate_content_hash_def Let_def)

lemma set_metadata_fields [simp]:
  "content (set_metadata md d) = content d"
  "file_path (set_metadata md d) = file_path d"
  "file_size (set_metadata md d) = file_size d"
  "file_hash (set_metadata md d) = file_hash d"
  by (simp_all add: set_metadata_def split: option.splits)

lemma written_document:
  "c \<noteq> [] \<Longrightarrow> written path c (set_metadata md (new_document now path c) \<lparr> doc_id := i, created_at := t \<rparr>)"
  "c \<noteq> [] \<Longrightarrow> written path c (set_metadata md (new_document now path c) \<lparr> doc_id := i, indexed_at := t \<rparr>)"
  by (simp_all add: written_def hash_and_size_of_content_def)

lemma update_document_documents:
  assumes "update_document document db = Inr (ok, db')"
  shows "set (documents db') \<subseteq> insert document (set (documents db))"
    and "ok \<Longrightarrow> \<exists>d\<in>set (documents db'). d = document"
  using assms
  by (auto simp add: update_document_def list_ex_iff split: if_splits)

lemma create_document_documents:
  assumes "create_document now document db = Inr (i, db')"
  shows "documents db' =
           documents db @ [document \<lparr> doc_id := Some i,
             indexed_at := (case indexed_at document of None \<Rightarrow> Some now | Some t \<Rightarrow> Some t) \<rparr>]"
  using assms
  by (auto simp add: create_document_def Let_def split: if_splits)

lemma index_document_documents:
  assumes "index_document now path c md extract db = (r, db')"
  shows "set (documents db') \<subseteq> set (documents db) \<union> {d. written path c d}"
proof (cases "path = [] \<or> c = []")
  case True
  with assms show ?thesis by (auto simp add: index_document_def)
next
  case False
  then have c: "c \<noteq> []" by simp
  show ?thesis
  proof (cases "get_document_by_path path db")
    case None
    show ?thesis
    proof (cases "create_document now (set_metadata md (new_document now path c)) db")
      case (Inl err)
      with assms False None show ?thesis by (auto simp add: index_document_def Let_def)
    next
      case (Inr res)
      obtain i db1 where res: "res = (i, db1)" by (cases res)
      from create_document_documents [OF Inr [unfolded res]] written_document(2) [OF c]
      have "set (documents db1) \<subseteq> set (documents db) \<union> {d. written path c d}"
        by auto
      moreover have "documents db' = documents db1"
        using assms False None Inr res
        by (auto simp add: index_document_def Let_def split: if_splits
              dest!: arg_cong [where f = "\<lambda>p. documents (snd p)"])
      ultimately show ?thesis by simp
    qed
  next
    case (Some existing)
    let ?document = "set_metadata md (new_document now path c)
                       \<lparr> doc_id := doc_id existing, created_at := created_at existing \<rparr>"
    show ?thesis
    proof (cases "update_document ?document db")
      case (Inl err)
      with assms False Some show ?thesis by (auto simp add: index_document_def Let_def)
    next
      case (Inr res)
      obtain ok db1 where res: "res = (ok, db1)" by (cases res)
      from update_document_documents(1) [OF Inr [unfolded res]] written_document(1) [OF c]
      have "set (documents db1) \<subseteq> set (documents db) \<union> {d. written path c d}"
        by auto
      moreover have "documents db' = documents db1"
        using assms False Some Inr res
        by (auto simp add: index_document_def Let_def split: if_splits
              dest!: arg_cong [where f = "\<lambda>p. documents (snd p)"])
      ultimately show ?thesis by simp
    qed
  qed
qed


lemma index_document_finish_id:
  "index_document_finish now i c md extract db = (Some j, db') \<Longrightarrow> j = i"
  by (auto simp add: index_document_finish_def split: sum.splits)

lemma index_document_written:
  assumes "index_document now path c md extract db = (Some i, db')"
  shows "\<exists>d\<in>set (documents db'). doc_id d = Some i \<and> written path c d"
proof -
  from assms have False: "\<not> (path = [] \<or> c = [])"
    by (auto simp add: index_document_def)
  then have c: "c \<noteq> []" by simp
  show ?thesis
  proof (cases "get_document_by_path path db")
    case None
    show ?thesis
    proof (cases "create_document now (set_metadata md (new_document now path c)) db")
      case (Inl err)
      with assms False None show ?thesis by (auto simp add: index_document_def Let_def)
    next
      case (Inr res)
      obtain j db1 where res: "res = (j, db1)" by (cases res)
      have "j = i \<and> documents db' = documents db1"
        using assms False None Inr res
        by (auto simp add: index_document_def Let_def split: if_splits
              dest: index_document_finish_id arg_cong [where f = "\<lambda>p. documents (snd p)"])
      with create_document_documents [OF Inr [unfolded res]] written_document(2) [OF c]
      show ?thesis by auto
    qed
  next
    case (Some existing)
    let ?document = "set_metadata md (new_document now path c)
                       \<lparr> doc_id := doc_id existing, created_at := created_at existing \<rparr>"
    show ?thesis
    proof (cases "update_document ?document db")
      case (Inl err)
      with assms False Some show ?thesis by (auto simp add: index_document_def Let_def)
    next
      case (Inr res)
      obtain ok db1 where res: "res = (ok, db1)" by (cases res)
      have ok: "ok" and i: "the (doc_id existing) = i" and docs: "documents db' = documents db1"
        using assms False Some Inr res
        by (auto simp add: index_document_def Let_def split: if_splits
              dest: index_document_finish_id arg_cong [where f = "\<lambda>p. documents (snd p)"])
      from ok Inr res have "doc_id existing \<noteq> None"
        by (auto simp add: update_document_def split: if_splits)
      with i have "doc_id ?document = Some i" by auto
      moreover have "written path c ?document"
        by (rule written_document(1) [OF c])
      moreover have "?document \<in> set (documents db')"
        using update_document_documents(2) [OF Inr [unfolded res] ok] docs by simp
      ultimately show ?thesis by blast
    qed
  qed
qed

lemma delete_document_documents:
  "set (documents (snd (delete_document now i db))) \<subseteq> set (documents db)"
  by (auto simp add: delete_document_def doc_queries_delete_document_def Let_def
        delete_search_index_for_document_def delete_document_metadata_def
        split: prod.splits if_splits)

lemma reachable_hash_and_size:
  "reachable db \<Longrightarrow> \<forall>d\<in>set (documents db). hash_and_size_of_content d"
proof (induction rule: reachable.induct)
  case initial
  show ?case by (simp add: empty_database_def)
next
  case (indexed db now path c md ex)
  obtain r db' where res: "index_document now path c md ex db = (r, db')"
    by (cases "index_document now path c md ex db")
  from index_document_documents [OF res] indexed.IH show ?case
    by (auto simp add: res written_def)
next
  case (deleted db now i)
  with delete_document_documents [of now i db] show ?case by auto
qed

subsection \<open>An example run\<close>

lemma index_foo_bar_baz:
  "index_document 100 ''/docs/a.md'' ''foo bar baz'' (Some [(''title'', ''Notes'')]) True
     empty_database =
     (Some 1,
      \<lparr> documents =
          [\<lparr> doc_id = Some 1, file_path = ''/docs/a.md'', file_name = ''a.md'',
             content = ''foo bar baz'', file_type = ''md'', file_size = 11,
             file_hash = ''dbd318c1c462aee872f41109a4dfd3048871a03dedd0fe0e757ced57dad6f2d7'',
             created_at = Some 100, modified_at = Some 100, indexed_at = Some 100,
             metadata_json = json_dumps_strs [(''title'', ''Notes'')] \<rparr>],
        document_metadata =
          [\<lparr> md_id = Some 1, md_document_id = 1, md_key = ''title'', md_value = ''Notes'',
             extracted_at = Some 100 \<rparr>],
        search_index =
          [\<lparr> si_id = Some 1, si_document_id = 1, keyword = ''foo'', frequency = 1,
             position_data = ''[0]'', relevance_score = 2 / 5 \<rparr>,
           \<lparr> si_id = Some 2, si_document_id = 1, keyword = ''bar'', frequency = 1,
             position_data = ''[1]'', relevance_score = 2 / 5 \<rparr>,
           \<lparr> si_id = Some 3, si_document_id = 1, keyword = ''baz'', frequency = 1,
             position_data = ''[2]'', relevance_score = 2 / 5 \<rparr>],
        search_cache = [],
        documents_seq = 1, document_metadata_seq = 1, search_index_seq = 3,
        search_cache_seq = 0 \<rparr>)"
  by code_simp

subsection \<open>The claims about the document manager\<close>

text \<open>
  C6. In every state of the store that the document manager can produce, and after any
  further write by \<open>index_document\<close> (which creates the document of a path, or updates
  or re-indexes the one stored under it), every stored document has as \<open>file_hash\<close> the
  SHA-256 digest of its content, 64 hexadecimal digits, and as \<open>file_size\<close> the number
  of bytes of the UTF-8 encoding of its content. When the write returns a document id,
  the document with this id is stored under the path with the content given.
\<close>

theorem C6_hash_and_size_after_write:
  assumes "reachable db"
    and "index_document now path c md extract db = (r, db')"
  shows "(\<forall>d\<in>set (documents db'). hash_and_size_of_content d)
       \<and> (\<forall>i. r = Some i \<longrightarrow>
             (\<exists>d\<in>set (documents db'). doc_id d = Some i \<and> file_path d = path \<and> content d = c))"
proof -
  have "reachable (snd (index_document now path c md extract db))"
    using assms(1) by (rule reachable.indexed)
  then have "\<forall>d\<in>set (documents db'). hash_and_size_of_content d"
    using reachable_hash_and_size assms(2) by fastforce
  moreover have "\<exists>d\<in>set (documents db'). doc_id d = Some i \<and> file_path d = path \<and> content d = c"
    if "r = Some i" for i
    using index_document_written [OF assms(2) [unfolded that]] by (auto simp add: written_def)
  ultimately show ?thesis by blast
qed


theorem C6_hash_and_size_after_write_witness:
  "reachable empty_database
   \<and> fst (index_document 100 ''/docs/a.md'' ''foo bar baz'' (Some [(''title'', ''Notes'')]) True
            empty_database) = Some 1
   \<and> map (\<lambda>d. (doc_id d, file_path d, content d, file_size d, file_hash d))
         (documents (snd (index_document 100 ''/docs/a.md'' ''foo bar baz''
            (Some [(''title'', ''Notes'')]) True empty_database)))
       = [(Some 1, ''/docs/a.md'', ''foo bar baz'', 11,
           ''dbd318c1c462aee872f41109a4dfd3048871a03dedd0fe0e757ced57dad6f2d7'')]
   \<and> list_all hash_and_size_of_content
         (documents (snd (index_document 100 ''/docs/a.md'' ''foo bar baz''
            (Some [(''title'', ''Notes'')]) True empty_database)))"
proof -
  let ?res = "index_document 100 ''/docs/a.md'' ''foo bar baz'' (Some [(''title'', ''Notes'')]) True
                empty_database"
  have "list_all hash_and_size_of_content (documents (snd ?res))"
    using C6_hash_and_size_after_write [OF reachable.initial surjective_pairing, of 100
        "''/docs/a.md''" "''foo bar baz''" "Some [(''title'', ''Notes'')]" True]
    unfolding list_all_iff by blast
  then show ?thesis
    by (simp add: index_foo_bar_baz reachable.initial)
qed

text \<open>
  C7. When a document with the id \<open>i\<close> is in the store, \<open>delete_document i\<close> succeeds,
  and afterwards no row of \<open>document_metadata\<close> and no row of \<open>search_index\<close>
  references \<open>i\<close>, and no document has the id \<open>i\<close>.
\<close>

theorem C7_delete_leaves_no_rows:
  assumes "d \<in> set (documents db)" and "doc_id d = Some i"
  shows "fst (delete_document now i db)
       \<and> filter (\<lambda>m. md_document_id m = i)
            (document_metadata (snd (delete_document now i db))) = []
       \<and> filter (\<lambda>e. si_document_id e = i)
            (search_index (snd (delete_document now i db))) = []
       \<and> get_document i (snd (delete_document now i db)) = None"
proof -
  from assms have "list_ex (\<lambda>r. doc_id r = Some i) (documents db)"
    by (auto simp add: list_ex_iff)
  then show ?thesis
    by (simp add: delete_document_def doc_queries_delete_document_def Let_def
          delete_search_index_for_document_def delete_document_metadata_def
          invalidate_search_cache_def cleanup_expired_cache_def get_document_def
          find_None_iff filter_empty_conv)
qed

theorem C7_delete_leaves_no_rows_witness:
  "(let db = snd (index_document 100 ''/docs/a.md'' ''foo bar baz''
                    (Some [(''title'', ''Notes'')]) True empty_database);
        db' = snd (delete_document 200 1 db)
    in length (document_metadata db) = 1 \<and> length (search_index db) = 3
       \<and> map doc_id (documents db) = [Some 1]
       \<and> fst (delete_document 200 1 db)
       \<and> filter (\<lambda>m. md_document_id m = 1) (document_metadata db') = []
       \<and> filter (\<lambda>e. si_document_id e = 1) (search_index db') = []
       \<and> get_document 1 db' = None)"
proof -
  let ?db = "snd (index_document 100 ''/docs/a.md'' ''foo bar baz''
                    (Some [(''title'', ''Notes'')]) True empty_database)"
  have "hd (documents ?db) \<in> set (documents ?db)" and "doc_id (hd (documents ?db)) = Some 1"
    by (simp_all add: index_foo_bar_baz)
  from C7_delete_leaves_no_rows [OF this, of 200] show ?thesis
    by (simp add: Let_def index_foo_bar_baz)
qed

text \<open>
  C1. The score of an index entry is \<open>tf * (1 + min 1 (frequency / 5))\<close> with
  \<open>tf = frequency / document_length\<close>, and nothing clamps it. For the content
  \<open>foo foo\<close> the one keyword has frequency 2 in a document of 2 words, so its score is
  7/5. The table \<open>search_index\<close> refuses a score above 1, the insertion of the entries
  fails as a whole and the failure is only logged: updating the document of the example
  above to this content returns its id, stores the new content, and leaves the document
  with no index entry at all, the three entries it had being deleted beforehand.
\<close>

theorem C1_relevance_above_one:
  "(let db1 = snd (index_document 100 ''/docs/a.md'' ''foo bar baz''
                     (Some [(''title'', ''Notes'')]) True empty_database);
        entries = map (keyword_entry 1 (int (length (split ''foo foo''))))
                    (extract_keywords ''foo foo'');
        (r, db2) = index_document 200 ''/docs/a.md'' ''foo foo'' None True db1
    in map keyword (search_index db1) = [''foo'', ''bar'', ''baz'']
       \<and> map (\<lambda>e. (keyword e, frequency e, relevance_score e)) entries = [(''foo'', 2, 7 / 5)]
       \<and> r = Some 1
       \<and> map content (documents db2) = [''foo foo'']
       \<and> search_index db2 = [])"
  unfolding index_foo_bar_baz by code_simp

section \<open>Properties of indexDocument\<close>

lemma supported_a_md: "is_supported_file_type ''/docs/a.md''"
  by code_simp

lemma unsupported_notes_rst:
  "\<not> is_supported_file_type ''/docs/notes.rst''" "path_suffix ''/docs/notes.rst'' = ''.rst''"
  by code_simp+

lemma str_int_sizes:
  "str_int 10485761 = ''10485761''" "str_int 10485760 = ''10485760''" "str_int 100 = ''100''"
  by (simp_all add: str_int_def str_nat.simps digit_char_def)

lemma index_notes_rst:
  "index_document 100 ''/docs/notes.rst'' ''foo bar baz'' None True empty_database =
     (Some 1,
      \<lparr> documents =
          [\<lparr> doc_id = Some 1, file_path = ''/docs/notes.rst'', file_name = ''notes.rst'',
             content = ''foo bar baz'', file_type = ''rst'', file_size = 11,
             file_hash = ''dbd318c1c462aee872f41109a4dfd3048871a03dedd0fe0e757ced57dad6f2d7'',
             created_at = Some 100, modified_at = Some 100, indexed_at = Some 100,
             metadata_json = ''{}'' \<rparr>],
        document_metadata = [],
        search_index =
          [\<lparr> si_id = Some 1, si_document_id = 1, keyword = ''foo'', frequency = 1,
             position_data = ''[0]'', relevance_score = 2 / 5 \<rparr>,
           \<lparr> si_id = Some 2, si_document_id = 1, keyword = ''bar'', frequency = 1,
             position_data = ''[1]'', relevance_score = 2 / 5 \<rparr>,
           \<lparr> si_id = Some 3, si_document_id = 1, keyword = ''baz'', frequency = 1,
             position_data = ''[2]'', relevance_score = 2 / 5 \<rparr>],
        search_cache = [],
        documents_seq = 1, document_metadata_seq = 0, search_index_seq = 3,
        search_cache_seq = 0 \<rparr>)"
  by code_simp

text \<open>
  C9, as stated, for every call on a file whose path has a stored document, without
  \<open>force_reindex\<close>, the file being no newer than the stored \<open>modified_at\<close>. The
  checks of the file come before the look-up in the store, and two of them can fail for
  such a file. The document of the example is stored under \<open>/docs/a.md\<close> with
  \<open>modified_at = 100\<close>; when the file has 10 MiB + 1 bytes and the older modification
  time 50, the call fails with \<open>File too large\<close>. A document stored by the document
  manager under \<open>/docs/notes.rst\<close>, the file being older as well, gives
  \<open>Unsupported file type\<close>. Neither call reports \<open>already_indexed\<close>.
\<close>

theorem C9_already_indexed_counterexample:
  "(let db = snd (index_document 100 ''/docs/a.md'' ''foo bar baz''
                    (Some [(''title'', ''Notes'')]) True empty_database);
        env = \<lparr> stat = (\<lambda>p. \<lparr> path_exists = True, path_is_file = True,
                              st_size = 10485761, st_mtime = 50 \<rparr>),
                parser_result = (\<lambda>p. \<lparr> pr_content = ''foo bar baz'', pr_metadata = [],
                                       pr_keywords = [], pr_parsing_stats = [],
                                       pr_success = True, pr_error_message = None \<rparr>),
                combine_metadata = (\<lambda>r p. []), isoformat = str_int \<rparr>;
        st = \<lparr> store = db, total_parses = 0 \<rparr>
    in map (\<lambda>d. (file_path d, modified_at d)) (documents db) = [(''/docs/a.md'', Some 100)]
       \<and> IndexDocumentTool_execute_tool env 300
             [(''file_path'', PStr ''/docs/a.md''), (''force_reindex'', PBool False)] st
           = (Inr (error_result
                     ''File too large: 10485761 bytes. Maximum size: 10485760 bytes'' None []),
              st))
   \<and> (let db = snd (index_document 100 ''/docs/notes.rst'' ''foo bar baz'' None True
                      empty_database);
          env = \<lparr> stat = (\<lambda>p. \<lparr> path_exists = True, path_is_file = True,
                                st_size = 11, st_mtime = 50 \<rparr>),
                  parser_result = (\<lambda>p. \<lparr> pr_content = ''foo bar baz'', pr_metadata = [],
                                         pr_keywords = [], pr_parsing_stats = [],
                                         pr_success = True, pr_error_message = None \<rparr>),
                  combine_metadata = (\<lambda>r p. []), isoformat = str_int \<rparr>;
          st = \<lparr> store = db, total_parses = 0 \<rparr>
      in map (\<lambda>d. (file_path d, modified_at d)) (documents db)
           = [(''/docs/notes.rst'', Some 100)]
         \<and> IndexDocumentTool_execute_tool env 300
               [(''file_path'', PStr ''/docs/notes.rst''), (''force_reindex'', PBool False)] st
             = (Inr (error_result
                       ''Unsupported file type: .rst. Supported types: .md, .txt'' None []),
                st))"
  by (simp add: Let_def index_foo_bar_baz index_notes_rst IndexDocumentTool_execute_tool_def
      index_file_def supported_a_md unsupported_notes_rst str_int_sizes max_file_size_def)

text \<open>
  C9, amended. Take a call on a path that exists and is a regular file, with the
  extension \<open>.md\<close> or \<open>.txt\<close> (in any case) and at most 10 MiB (10 * 1024 * 1024
  bytes); the store holds a document under the path, \<open>force_reindex\<close> is false or
  absent, and the modification time of the file is not later than the stored
  \<open>modified_at\<close>. Then \<open>_execute_tool\<close> returns a success result with the status
  \<open>already_indexed\<close> and the id of the stored document, and the state is the one
  before the call: the store is unchanged, and the parser factory has counted no parse.
  So does the whole call through \<open>execute\<close>, for a path of 1 to 1000 characters given
  with or without \<open>force_reindex = false\<close>: its result is that success result with the
  execution time set, and one execution and no error are counted.
\<close>

theorem C9_already_indexed:
  assumes "path_exists (stat env path)"
    and "path_is_file (stat env path)"
    and "is_supported_file_type path"
    and "st_size (stat env path) \<le> max_file_size"
    and "get_document_by_path path (store st) = Some existing"
    and "modified_at existing = Some t"
    and "st_mtime (stat env path) \<le> t"
  shows "(map_of validated_params ''file_path'' = Some (PStr path)
          \<and> (map_of validated_params ''force_reindex'' = None
               \<or> map_of validated_params ''force_reindex'' = Some (PBool False)) \<longrightarrow>
          IndexDocumentTool_execute_tool env now validated_params st =
            (Inr (success_result
                    (PDict
                       [(''status'', PStr ''already_indexed''),
                        (''document_id'', opt_int (doc_id existing)),
                        (''message'', PStr ''Document is already indexed and up to date''),
                        (''indexed_at'',
                         opt_str (map_option (isoformat env) (indexed_at existing))),
                        (''file_path'', PStr path)])
                    None []),
             st))
       \<and> (1 \<le> length path \<and> length path \<le> 1000
          \<and> (rest = [] \<or> rest = [(''force_reindex'', PBool False)]) \<longrightarrow>
          execute IndexDocumentTool_schema timeout_seconds (IndexDocumentTool_execute_tool env now)
              elapsed_ms (Some ((''file_path'', PStr path) # rest)) (m, st) =
            (success_result
               (PDict
                  [(''status'', PStr ''already_indexed''),
                   (''document_id'', opt_int (doc_id existing)),
                   (''message'', PStr ''Document is already indexed and up to date''),
                   (''indexed_at'', opt_str (map_option (isoformat env) (indexed_at existing))),
                   (''file_path'', PStr path)])
               (Some elapsed_ms) [],
             m \<lparr> execution_count := execution_count m + 1,
                 total_execution_time := total_execution_time m + elapsed_ms \<rparr>,
             st))"
proof -
  let ?result = "success_result
                   (PDict
                      [(''status'', PStr ''already_indexed''),
                       (''document_id'', opt_int (doc_id existing)),
                       (''message'', PStr ''Document is already indexed and up to date''),
                       (''indexed_at'', opt_str (map_option (isoformat env) (indexed_at existing))),
                       (''file_path'', PStr path)])"
  have unchanged: "index_file env now path False st = (?result None [], st)"
    using assms by (simp add: index_file_def)
  have tool: "IndexDocumentTool_execute_tool env now validated_params st
                = (Inr (?result None []), st)"
    if "map_of validated_params ''file_path'' = Some (PStr path)"
      and "map_of validated_params ''force_reindex'' = None
           \<or> map_of validated_params ''force_reindex'' = Some (PBool False)"
    for validated_params
  proof -
    have "truthy (case map_of validated_params ''force_reindex'' of
                    None \<Rightarrow> PBool False | Some v \<Rightarrow> v) = False"
      using that(2) by auto
    then show ?thesis
      using that(1) unchanged by (simp add: IndexDocumentTool_execute_tool_def)
  qed
  have call: "execute IndexDocumentTool_schema timeout_seconds
                (IndexDocumentTool_execute_tool env now) elapsed_ms
                (Some ((''file_path'', PStr path) # rest)) (m, st)
              = (?result (Some elapsed_ms) [],
                 m \<lparr> execution_count := execution_count m + 1,
                     total_execution_time := total_execution_time m + elapsed_ms \<rparr>,
                 st)"
    if len: "1 \<le> length path" "length path \<le> 1000"
      and rest: "rest = [] \<or> rest = [(''force_reindex'', PBool False)]"
  proof -
    have valid: "validate_parameters IndexDocumentTool_schema ((''file_path'', PStr path) # rest)
                   = Inr [(''file_path'', PStr path), (''force_reindex'', PBool False)]"
      using len rest
      by (auto simp add: validate_parameters_def IndexDocumentTool_schema_def no_constraints_def
          validate_type_def validate_property_constraints_def below_def above_def)
    have "IndexDocumentTool_execute_tool env now
            [(''file_path'', PStr path), (''force_reindex'', PBool False)] st
          = (Inr (?result None []), st)"
      by (rule tool) simp_all
    with valid show ?thesis
      by (simp add: execute_def execute_validated_def success_result_def)
  qed
  from tool call show ?thesis
    by blast
qed

theorem C9_already_indexed_witness:
  "(let db = snd (index_document 100 ''/docs/a.md'' ''foo bar baz''
                    (Some [(''title'', ''Notes'')]) True empty_database);
        env = \<lparr> stat = (\<lambda>p. \<lparr> path_exists = True, path_is_file = True,
                              st_size = 11, st_mtime = 50 \<rparr>),
                parser_result = (\<lambda>p. \<lparr> pr_content = ''foo bar baz'', pr_metadata = [],
                                       pr_keywords = [], pr_parsing_stats = [],
                                       pr_success = True, pr_error_message = None \<rparr>),
                combine_metadata = (\<lambda>r p. []), isoformat = str_int \<rparr>;
        st = \<lparr> store = db, total_parses = 0 \<rparr>;
        already = PDict
                    [(''status'', PStr ''already_indexed''),
                     (''document_id'', PInt 1),
                     (''message'', PStr ''Document is already indexed and up to date''),
                     (''indexed_at'', PStr ''100''),
                     (''file_path'', PStr ''/docs/a.md'')]
    in map (\<lambda>d. (file_path d, modified_at d)) (documents db) = [(''/docs/a.md'', Some 100)]
       \<and> IndexDocumentTool_execute_tool env 300
             [(''file_path'', PStr ''/docs/a.md''), (''force_reindex'', PBool False)] st
           = (Inr (success_result already None []), st)
       \<and> execute IndexDocumentTool_schema ''30.0'' (IndexDocumentTool_execute_tool env 300) 5
             (Some [(''file_path'', PStr ''/docs/a.md'')])
             (\<lparr> execution_count = 0, total_execution_time = 0, error_count = 0 \<rparr>, st)
           = (success_result already (Some 5) [],
              \<lparr> execution_count = 1, total_execution_time = 5, error_count = 0 \<rparr>, st))"
proof -
  let ?db = "snd (index_document 100 ''/docs/a.md'' ''foo bar baz''
                    (Some [(''title'', ''Notes'')]) True empty_database)"
  let ?env = "\<lparr> stat = (\<lambda>p. \<lparr> path_exists = True, path_is_file = True,
                              st_size = 11, st_mtime = 50 \<rparr>),
                parser_result = (\<lambda>p. \<lparr> pr_content = ''foo bar baz'', pr_metadata = [],
                                       pr_keywords = [], pr_parsing_stats = [],
                                       pr_success = True, pr_error_message = None \<rparr>),
                combine_metadata = (\<lambda>r p. []), isoformat = str_int \<rparr>"
  let ?st = "\<lparr> store = ?db, total_parses = 0 \<rparr>"
  have existing: "get_document_by_path ''/docs/a.md'' (store ?st) = Some (hd (documents ?db))"
    by (simp add: index_foo_bar_baz get_document_by_path_def)
  have modified: "modified_at (hd (documents ?db)) = Some 100"
    by (simp add: index_foo_bar_baz)
  have facts: "path_exists (stat ?env ''/docs/a.md'')" "path_is_file (stat ?env ''/docs/a.md'')"
    "st_size (stat ?env ''/docs/a.md'') \<le> max_file_size"
    "st_mtime (stat ?env ''/docs/a.md'') \<le> 100"
    by (simp_all add: max_file_size_def)
  note C9 = C9_already_indexed [OF facts(1,2) supported_a_md facts(3) existing modified facts(4),
      where validated_params = "[(''file_path'', PStr ''/docs/a.md''),
                                 (''force_reindex'', PBool False)]"
        and rest = "[]" and now = 300 and timeout_seconds = "''30.0''" and elapsed_ms = 5
        and m = "\<lparr> execution_count = 0, total_execution_time = 0, error_count = 0 \<rparr>"]
  from C9 show ?thesis
    by (simp add: Let_def index_foo_bar_baz opt_int_def opt_str_def str_int_sizes)
qed

section \<open>Properties of searchDocuments\<close>








section \<open>Properties of getDocument\<close>

lemma contains_append:
  "contains ys sub \<Longrightarrow> contains (xs @ ys) sub"
proof (induction xs)
  case Nil
  then show ?case by simp
next
  case (Cons x xs)
  then show ?case by simp
qed

lemma strip_not_blank_at_end:
  "strip s \<noteq> xs @ [lf]"
proof
  assume "strip s = xs @ [lf]"
  then have "dropWhile py_isspace (rev (lstrip s)) = lf # rev xs"
    unfolding strip_def rstrip_def by (metis rev_rev_ident rev_append rev.simps append_Nil)
  moreover have "py_isspace lf"
    by (simp add: py_isspace_def lf_def)
  ultimately show False
    by (metis hd_dropWhile list.sel(1) list.distinct(1))
qed

lemma truncated_is_markdown:
  "list_ex (contains (xs @ truncation_indicator GetDocumentTool_init)) markdown_indicators"
proof -
  have "contains (truncation_indicator GetDocumentTool_init) ''[''"
    by (simp add: GetDocumentTool_init_def lf_def)
  then have "contains (xs @ truncation_indicator GetDocumentTool_init) ''[''"
    by (rule contains_append)
  then show ?thesis
    by (simp add: markdown_indicators_def)
qed

text \<open>
  C8, as stated, for every call with \<open>include_content = true\<close> and
  \<open>max_content_length = 0\<close>, whatever the output format. It fails for two formats.
  With \<open>markdown\<close>, content of at most 5 MB that has no markdown marker is not returned
  as it is stored, but wrapped in a code fence. With \<open>text\<close>, content longer than 5 MB
  is not returned as its first 5 MB followed by the sentinel: the result of
  \<open>_strip_markdown\<close> has passed \<open>.strip()\<close>, so it cannot end with the line feed that
  ends the sentinel, whatever the substitutions before have done.
\<close>

theorem C8_returned_whole_counterexample:
  "\<forall>rewrite.
     format_document_response GetDocumentTool_init rewrite ''hello'' True ''markdown'' 0
       = Some \<lparr> rc_content = ''```'' @ [lf] @ ''hello'' @ [lf] @ ''```'', rc_content_length = 13,
                rc_content_truncated = False, rc_content_format = ''markdown'' \<rparr>
     \<and> ''```'' @ [lf] @ ''hello'' @ [lf] @ ''```'' \<noteq> ''hello''
     \<and> map_option rc_content
           (format_document_response GetDocumentTool_init rewrite (replicate 5242881 CHR ''a'')
              True ''text'' 0)
         \<noteq> Some (replicate 5242880 CHR ''a''
                   @ [lf, lf] @ ''[Content truncated due to size limits]'' @ [lf])"
proof
  fix rewrite :: "string \<Rightarrow> string"
  have "format_document_response GetDocumentTool_init rewrite ''hello'' True ''markdown'' 0
     = Some \<lparr> rc_content = ''```'' @ [lf] @ ''hello'' @ [lf] @ ''```'', rc_content_length = 13,
              rc_content_truncated = False, rc_content_format = ''markdown'' \<rparr>"
    by (simp add: format_document_response_def format_content_def GetDocumentTool_init_def
        markdown_header_prefixes_def markdown_indicators_def strip_def lstrip_def rstrip_def
        py_isspace_def Let_def)
  moreover have "map_option rc_content
         (format_document_response GetDocumentTool_init rewrite (replicate 5242881 CHR ''a'')
            True ''text'' 0)
       \<noteq> Some (replicate 5242880 CHR ''a''
                 @ [lf, lf] @ ''[Content truncated due to size limits]'' @ [lf])"
    using strip_not_blank_at_end
      [of "rewrite (replicate 5242880 CHR ''a''
                     @ [lf, lf] @ ''[Content truncated due to size limits]'' @ [lf])"
          "replicate 5242880 CHR ''a'' @ [lf, lf] @ ''[Content truncated due to size limits]''"]
    by (simp add: format_document_response_def format_content_def GetDocumentTool_init_def
        strip_markdown_def Let_def)
  ultimately show
    "format_document_response GetDocumentTool_init rewrite ''hello'' True ''markdown'' 0
       = Some \<lparr> rc_content = ''```'' @ [lf] @ ''hello'' @ [lf] @ ''```'', rc_content_length = 13,
                rc_content_truncated = False, rc_content_format = ''markdown'' \<rparr>
     \<and> ''```'' @ [lf] @ ''hello'' @ [lf] @ ''```'' \<noteq> ''hello''
     \<and> map_option rc_content
           (format_document_response GetDocumentTool_init rewrite (replicate 5242881 CHR ''a'')
              True ''text'' 0)
         \<noteq> Some (replicate 5242880 CHR ''a''
                   @ [lf, lf] @ ''[Content truncated due to size limits]'' @ [lf])"
    by simp
qed

text \<open>
  C8, amended. For every call with \<open>include_content = true\<close> and
  \<open>max_content_length = 0\<close>, and every output format: \<open>content_truncated\<close> is true
  exactly when the stored content is longer than 5 MB (5 * 1024 * 1024 characters). The
  text the formatter works on is the first 5 MB followed by the truncation sentinel when
  the content is longer than 5 MB, and the whole content otherwise. It is what is
  returned, with two exceptions: for the format \<open>text\<close> it goes through
  \<open>_strip_markdown\<close>; for the format \<open>markdown\<close>, content of at most 5 MB that
  neither starts (blanks aside) with a header prefix nor contains one of the markdown
  markers is wrapped in a code fence. Content cut at 5 MB is never wrapped, since the
  sentinel contains the marker \<open>[\<close>. So for \<open>json\<close>, for \<open>markdown\<close> and for any
  other string but \<open>text\<close>, content longer than 5 MB is returned as its first 5 MB
  followed by the sentinel.
\<close>

theorem C8_hard_cap:
  "format_document_response GetDocumentTool_init rewrite c True format_type 0 =
     (let capped =
            (if length c > 5 * 1024 * 1024 then
               take (5 * 1024 * 1024) c @ [lf, lf] @ ''[Content truncated due to size limits]'' @ [lf]
             else c);
          returned =
            (if c = [] then []
             else if format_type = ''text'' then strip_markdown rewrite capped
             else if format_type = ''markdown'' \<and> length c \<le> 5 * 1024 * 1024
                     \<and> \<not> list_ex (startswith (strip c)) markdown_header_prefixes
                     \<and> \<not> list_ex (contains c) markdown_indicators then
               ''```'' @ [lf] @ c @ [lf] @ ''```''
             else capped)
      in Some \<lparr> rc_content = returned, rc_content_length = length returned,
                rc_content_truncated = (length c > 5 * 1024 * 1024),
                rc_content_format = format_type \<rparr>)"
proof (cases "length c > 5 * 1024 * 1024")
  case True
  then have "c \<noteq> []" by auto
  with True truncated_is_markdown [of "take (5 * 1024 * 1024) c"] show ?thesis
    by (simp add: format_document_response_def format_content_def GetDocumentTool_init_def
        Let_def)
next
  case False
  then show ?thesis
    by (auto simp add: format_document_response_def format_content_def GetDocumentTool_init_def
        Let_def)
qed

theorem C8_hard_cap_witness:
  "format_document_response GetDocumentTool_init (\<lambda>s. s) (replicate 5242881 CHR ''a'') True ''json'' 0
     = Some \<lparr> rc_content = replicate 5242880 CHR ''a''
                  @ [lf, lf] @ ''[Content truncated due to size limits]'' @ [lf],
              rc_content_length = 5242921, rc_content_truncated = True, rc_content_format = ''json'' \<rparr>
   \<and> format_document_response GetDocumentTool_init (\<lambda>s. s) (replicate 5242881 CHR ''a'') True
         ''markdown'' 0
     = Some \<lparr> rc_content = replicate 5242880 CHR ''a''
                  @ [lf, lf] @ ''[Content truncated due to size limits]'' @ [lf],
              rc_content_length = 5242921, rc_content_truncated = True,
              rc_content_format = ''markdown'' \<rparr>
   \<and> format_document_response GetDocumentTool_init (\<lambda>s. s) ''# Title'' True ''json'' 0
     = Some \<lparr> rc_content = ''# Title'', rc_content_length = 7,
              rc_content_truncated = False, rc_content_format = ''json'' \<rparr>
   \<and> format_document_response GetDocumentTool_init (\<lambda>s. s) ''hello'' True ''html'' 0
     = Some \<lparr> rc_content = ''hello'', rc_content_length = 5,
              rc_content_truncated = False, rc_content_format = ''html'' \<rparr>
   \<and> format_document_response GetDocumentTool_init (\<lambda>s. s) ''see [notes]'' True ''markdown'' 0
     = Some \<lparr> rc_content = ''see [notes]'', rc_content_length = 11,
              rc_content_truncated = False, rc_content_format = ''markdown'' \<rparr>"
proof -
  have marked: "list_ex (contains ''see [notes]'') markdown_indicators"
    by (simp add: markdown_indicators_def)
  show ?thesis
    using C8_hard_cap [of "\<lambda>s. s" "replicate 5242881 CHR ''a''" "''json''"]
      C8_hard_cap [of "\<lambda>s. s" "replicate 5242881 CHR ''a''" "''markdown''"]
      C8_hard_cap [of "\<lambda>s. s" "''# Title''" "''json''"]
      C8_hard_cap [of "\<lambda>s. s" "''hello''" "''html''"]
      C8_hard_cap [of "\<lambda>s. s" "''see [notes]''" "''markdown''"]
      marked
    by (simp add: Let_def)
qed

end
